theory Spec2Isabelle
  imports Complex_Main "HOL-Library.Word"
begin

section \<open>The sensor bridge of cartographer\_ros (sensor\_bridge.cc)\<close>

text \<open>
  The bridge turns ROS messages into the sensor records of the SLAM library and hands
  them to a trajectory builder. The embedding follows sensor\_bridge.cc function by
  function:
  \<^item> a \<open>float\<close> or \<open>double\<close> value is the real number it stands for. Where the
    code computes in floating point (the subtraction of two \<open>double\<close>s, the product
    of two \<open>float\<close>s, the conversion of an integer or of a \<open>double\<close> to \<open>float\<close>)
    the exact result is rounded by \<open>to_float\<close> or \<open>to_double\<close>, the rounding of
    the platform's \<open>float\<close> and \<open>double\<close> (IEEE 754: to the nearest value of the
    type). A \<open>float\<close> read as a \<open>double\<close> is unchanged. The tests \<open>isnan\<close> and
    \<open>isinf\<close> on points stay predicates given from outside;
  \<^item> \<open>carto::common::Time\<close> and \<open>Duration\<close> count ticks and are integers;
  \<^item> \<open>size_t\<close> arithmetic is written out modulo \<open>2 ^ 64\<close>, \<open>int\<close> counters
    stop at \<open>INT_MAX\<close>;
  \<^item> a failed \<open>CHECK\<close> and undefined behaviour end the call with an error value;
  \<^item> every call of \<open>trajectory_builder_->AddSensorData\<close> appends one entry to the
    list of forwarded records that each handler returns beside the new bridge state;
  \<^item> everything the file calls but does not define (time and message conversion, the
    transform lookup, rigid transforms, PCL) is a field of the record
    \<open>collaborators\<close>.
\<close>

subsection \<open>Values\<close>

type_synonym Time = int
type_synonym Duration = int

type_synonym Vector3 = "real \<times> real \<times> real"

text \<open>\<open>Eigen::Vector4f\<close>: a timed point \<open>(x, y, z, t)\<close>; \<open>v3 p\<close> is \<open>p[3]\<close>.\<close>

record Vector4f =
  v0 :: real
  v1 :: real
  v2 :: real
  v3 :: real

type_synonym TimedPointCloud = "Vector4f list"

record PointCloudWithIntensities =
  points :: TimedPointCloud
  intensities :: "real list"

text \<open>The Euclidean norm of \<open>Eigen::Vector3d\<close>.\<close>

definition norm3 :: "Vector3 \<Rightarrow> real" where
  "norm3 v = (case v of (a, b, c) \<Rightarrow> sqrt (a * a + b * b + c * c))"

subsection \<open>ROS messages\<close>

text \<open>
  Each message record has the fields the bridge reads or hands on to a converter. All
  messages extend \<open>Stamped\<close>, the record of the \<open>header\<close> field.
\<close>

record ros_Time =
  sec :: "32 word"
  nsec :: "32 word"

record Header =
  seq :: "32 word"
  stamp :: ros_Time
  frame_id :: string

record Stamped =
  header :: Header

record Pose =
  position :: Vector3
  orientation :: "real \<times> real \<times> real \<times> real"

text \<open>\<open>nav_msgs::Odometry\<close>; \<open>pose_pose\<close> is \<open>msg->pose.pose\<close>.\<close>

record Odometry = Stamped +
  child_frame_id :: string
  pose_pose :: Pose

text \<open>\<open>sensor_msgs::NavSatFix\<close>; \<open>status_status\<close> is \<open>msg->status.status\<close>.\<close>

record NavSatFix = Stamped +
  status_status :: int
  latitude :: real
  longitude :: real
  altitude :: real

definition STATUS_NO_FIX :: int where
  "STATUS_NO_FIX = - 1"

text \<open>\<open>sensor_msgs::Imu\<close>; the covariances are arrays of nine doubles.\<close>

record Imu = Stamped +
  angular_velocity :: Vector3
  angular_velocity_covariance :: "real list"
  linear_acceleration :: Vector3
  linear_acceleration_covariance :: "real list"

record LaserScan = Stamped +
  angle_min :: real
  angle_max :: real
  angle_increment :: real
  time_increment :: real
  scan_time :: real
  range_min :: real
  range_max :: real
  ranges :: "real list"
  scan_intensities :: "real list"

record MultiEchoLaserScan = Stamped +
  echo_angle_min :: real
  echo_angle_max :: real
  echo_angle_increment :: real
  echo_time_increment :: real
  echo_scan_time :: real
  echo_range_min :: real
  echo_range_max :: real
  echo_ranges :: "real list list"
  echo_intensities :: "real list list"

record PointCloud2 = Stamped +
  height :: "32 word"
  width :: "32 word"
  point_fields :: "(string \<times> 32 word \<times> 8 word \<times> 32 word) list"
  is_bigendian :: bool
  point_step :: "32 word"
  row_step :: "32 word"
  data :: "8 word list"
  is_dense :: bool

text \<open>
  \<open>cartographer_ros_msgs::LandmarkList\<close>: each entry is an id, a pose and the
  translation and rotation weights.
\<close>

record LandmarkList = Stamped +
  landmarks :: "(string \<times> Pose \<times> real \<times> real) list"

subsection \<open>PCL point types\<close>

text \<open>
  The four point types that \<open>pcl::fromROSMsg\<close> fills. \<open>point_x\<close>, \<open>point_y\<close>
  and \<open>point_z\<close> are the fields \<open>x\<close>, \<open>y\<close> and \<open>z\<close>; \<open>ouster_t\<close> is the
  field \<open>t\<close> of \<open>OusterPointXYZIRT\<close>, \<open>velodyne_time\<close> the field \<open>time\<close> of
  \<open>PointXYZIRT\<close>, \<open>rs_timestamp\<close> the field \<open>timestamp\<close> of
  \<open>RsPointXYZIRT\<close>. The point types are declared in sensor\_bridge.h: \<open>t\<close> is a
  \<open>uint32_t\<close> that counts nanoseconds, \<open>time\<close> a \<open>float\<close> and \<open>timestamp\<close> a
  \<open>double\<close>, both in seconds.
\<close>

record PointXYZ =
  point_x :: real
  point_y :: real
  point_z :: real

record OusterPointXYZIRT = PointXYZ +
  ouster_t :: "32 word"

record PointXYZIRT = PointXYZ +
  velodyne_time :: real

record RsPointXYZIRT = PointXYZ +
  rs_timestamp :: real

record PointXYZI = PointXYZ +
  intensity :: real

subsection \<open>Sensor records and the trajectory builder\<close>

datatype 'tf OdometryData = OdometryData Time 'tf

datatype 'tf FixedFramePoseData = FixedFramePoseData Time "'tf option"

datatype ImuData = ImuData Time Vector3 Vector3

datatype TimedPointCloudData = TimedPointCloudData Time Vector3 TimedPointCloud

datatype 'tf LandmarkData = LandmarkData Time "(string \<times> 'tf \<times> real \<times> real) list"

text \<open>The overloads of \<open>TrajectoryBuilderInterface::AddSensorData\<close>.\<close>

datatype 'tf SensorData =
    Odometry_data "'tf OdometryData"
  | FixedFramePose_data "'tf FixedFramePoseData"
  | Imu_data ImuData
  | TimedPointCloud_data TimedPointCloudData
  | Landmark_data "'tf LandmarkData"

text \<open>One call \<open>AddSensorData(sensor_id, data)\<close>.\<close>

type_synonym 'tf AddSensorData = "string \<times> 'tf SensorData"

subsection \<open>Collaborators\<close>

text \<open>
  What sensor\_bridge.cc calls and does not define. \<open>'tf\<close> is \<open>Rigid3d\<close> (and
  \<open>Rigid3f\<close>), \<open>'q\<close> is \<open>Eigen::Quaterniond\<close>.
  \<^item> time\_conversion and cartographer's time.h: \<open>FromRos\<close>, \<open>FromSeconds\<close>;
  \<^item> tf\_bridge: \<open>LookupToTracking\<close>, \<open>None\<close> for a null pointer;
  \<^item> msg\_conversion: \<open>ToRigid3d\<close>, \<open>ToEigen\<close>, \<open>ToLandmarkData\<close>, the two
    overloads of \<open>ToPointCloudWithIntensities\<close>, \<open>ComputeLocalFrameFromLatLong\<close>,
    \<open>LatLongAltToEcef\<close>;
  \<^item> rigid transforms: \<open>Rigid3_times a b\<close> is \<open>a * b\<close>, \<open>Rigid3_apply a v\<close> is
    \<open>a * v\<close>, \<open>Quaternion_apply q v\<close> is \<open>q * v\<close>, \<open>Rigid3_Translation\<close> is
    \<open>Rigid3d::Translation\<close>, the two casts are \<open>cast<float>()\<close>;
  \<^item> PCL: \<open>pcl::fromROSMsg\<close> and the tests \<open>isnan\<close> and \<open>isinf\<close>, one per
    point type.
\<close>

record ('tf, 'q) collaborators =
  FromRos :: "ros_Time \<Rightarrow> Time"
  FromSeconds :: "real \<Rightarrow> Duration"
  LookupToTracking :: "Time \<Rightarrow> string \<Rightarrow> 'tf option"
  ToRigid3d :: "Pose \<Rightarrow> 'tf"
  ToEigen :: "Vector3 \<Rightarrow> Vector3"
  ToLandmarkData :: "LandmarkList \<Rightarrow> 'tf LandmarkData"
  ToPointCloudWithIntensities :: "LaserScan \<Rightarrow> PointCloudWithIntensities \<times> Time"
  ToPointCloudWithIntensities_MultiEcho ::
    "MultiEchoLaserScan \<Rightarrow> PointCloudWithIntensities \<times> Time"
  ComputeLocalFrameFromLatLong :: "real \<Rightarrow> real \<Rightarrow> 'tf"
  LatLongAltToEcef :: "real \<Rightarrow> real \<Rightarrow> real \<Rightarrow> Vector3"
  Rigid3_times :: "'tf \<Rightarrow> 'tf \<Rightarrow> 'tf"
  Rigid3_inverse :: "'tf \<Rightarrow> 'tf"
  Rigid3_translation :: "'tf \<Rightarrow> Vector3"
  Rigid3_rotation :: "'tf \<Rightarrow> 'q"
  Rigid3_apply :: "'tf \<Rightarrow> Vector3 \<Rightarrow> Vector3"
  Rigid3_Translation :: "Vector3 \<Rightarrow> 'tf"
  Rigid3_cast_float :: "'tf \<Rightarrow> 'tf"
  Quaternion_apply :: "'q \<Rightarrow> Vector3 \<Rightarrow> Vector3"
  Vector3_cast_float :: "Vector3 \<Rightarrow> Vector3"
  TransformTimedPointCloud :: "TimedPointCloud \<Rightarrow> 'tf \<Rightarrow> TimedPointCloud"
  fromROSMsg_Ouster :: "PointCloud2 \<Rightarrow> OusterPointXYZIRT list"
  fromROSMsg_Velodyne :: "PointCloud2 \<Rightarrow> PointXYZIRT list"
  fromROSMsg_Rs :: "PointCloud2 \<Rightarrow> RsPointXYZIRT list"
  fromROSMsg_XYZI :: "PointCloud2 \<Rightarrow> PointXYZI list"
  isnan_Ouster :: "OusterPointXYZIRT \<Rightarrow> bool"
  isinf_Ouster :: "OusterPointXYZIRT \<Rightarrow> bool"
  isnan_Velodyne :: "PointXYZIRT \<Rightarrow> bool"
  isinf_Velodyne :: "PointXYZIRT \<Rightarrow> bool"
  isnan_Rs :: "RsPointXYZIRT \<Rightarrow> bool"
  isinf_Rs :: "RsPointXYZIRT \<Rightarrow> bool"
  isnan_XYZI :: "PointXYZI \<Rightarrow> bool"
  isinf_XYZI :: "PointXYZI \<Rightarrow> bool"
  to_float :: "real \<Rightarrow> real"
  to_double :: "real \<Rightarrow> real"

subsection \<open>The bridge\<close>

text \<open>
  The data members of \<open>SensorBridge\<close> that belong to the bridge itself; \<open>tf_bridge_\<close>
  and \<open>trajectory_builder_\<close> are collaborators. The \<open>std::map\<close> is a partial map,
  the \<open>optional\<close> an option. The field names are the members' names without the
  underscore at the end.
\<close>

record 'tf SensorBridge =
  num_subdivisions_per_laser_scan :: int
  sensor_to_previous_subdivision_time :: "string \<rightharpoonup> Time"
  ecef_to_local_frame :: "'tf option"

datatype error = CheckFailed | UndefinedBehavior

text \<open>
  What a handler returns: the calls of \<open>AddSensorData\<close> it made, in order, and either
  the bridge after the call or the error that ended it.
\<close>

type_synonym 'tf outcome = "'tf AddSensorData list \<times> (error + 'tf SensorBridge)"

subsection \<open>Frame ids\<close>

definition CheckNoLeadingSlash :: "string \<Rightarrow> string" where
  "CheckNoLeadingSlash frame =
     (if length frame > 0 then
        (if frame ! 0 = CHR ''/'' then
           (if length frame > 1 then drop 1 frame else frame)
         else frame)
      else frame)"

subsection \<open>Odometry\<close>

definition ToOdometryData ::
  "('tf, 'q) collaborators \<Rightarrow> Odometry \<Rightarrow> 'tf OdometryData option" where
  "ToOdometryData env msg =
     (let t = FromRos env (stamp (header msg));
          sensor_to_tracking =
            LookupToTracking env t (CheckNoLeadingSlash (child_frame_id msg))
      in case sensor_to_tracking of
           None \<Rightarrow> None
         | Some tf \<Rightarrow>
             Some (OdometryData t
               (Rigid3_times env (ToRigid3d env (pose_pose msg)) (Rigid3_inverse env tf))))"

definition HandleOdometryMessage ::
  "('tf, 'q) collaborators \<Rightarrow> 'tf SensorBridge \<Rightarrow> string \<Rightarrow> Odometry \<Rightarrow> 'tf outcome" where
  "HandleOdometryMessage env st sensor_id msg =
     (case ToOdometryData env msg of
        None \<Rightarrow> ([], Inr st)
      | Some (OdometryData t p) \<Rightarrow>
          ([(sensor_id, Odometry_data (OdometryData t p))], Inr st))"

subsection \<open>Satellite fixes\<close>

text \<open>
  \<open>ecef_to_local_frame_.value()\<close> is read after the frame has been set where it was
  missing; the branch for a missing value is there for the shape of the code only.
\<close>

definition HandleNavSatFixMessage ::
  "('tf, 'q) collaborators \<Rightarrow> 'tf SensorBridge \<Rightarrow> string \<Rightarrow> NavSatFix \<Rightarrow> 'tf outcome" where
  "HandleNavSatFixMessage env st sensor_id msg =
     (let t = FromRos env (stamp (header msg)) in
      if status_status msg = STATUS_NO_FIX then
        ([(sensor_id, FixedFramePose_data (FixedFramePoseData t None))], Inr st)
      else
        let st' =
              (if ecef_to_local_frame st = None then
                 st\<lparr>ecef_to_local_frame :=
                      Some (ComputeLocalFrameFromLatLong env (latitude msg) (longitude msg))\<rparr>
               else st)
        in case ecef_to_local_frame st' of
             None \<Rightarrow> ([], Inl UndefinedBehavior)
           | Some ecef_to_local \<Rightarrow>
               ([(sensor_id, FixedFramePose_data (FixedFramePoseData t
                    (Some (Rigid3_Translation env
                       (Rigid3_apply env ecef_to_local
                          (LatLongAltToEcef env (latitude msg) (longitude msg)
                             (altitude msg)))))))],
                Inr st'))"

subsection \<open>Landmarks\<close>

definition HandleLandmarkMessage ::
  "('tf, 'q) collaborators \<Rightarrow> 'tf SensorBridge \<Rightarrow> string \<Rightarrow> LandmarkList \<Rightarrow> 'tf outcome" where
  "HandleLandmarkMessage env st sensor_id msg =
     ([(sensor_id, Landmark_data (ToLandmarkData env msg))], Inr st)"

subsection \<open>Inertial measurements\<close>

text \<open>
  The two \<open>CHECK_NE\<close> on the covariances come first, then the lookup, then the
  \<open>CHECK\<close> that the IMU sits at the origin of the tracking frame.
\<close>

definition ToImuData :: "('tf, 'q) collaborators \<Rightarrow> Imu \<Rightarrow> error + ImuData option" where
  "ToImuData env msg =
     (if linear_acceleration_covariance msg ! 0 = - 1 then Inl CheckFailed
      else if angular_velocity_covariance msg ! 0 = - 1 then Inl CheckFailed
      else
        let t = FromRos env (stamp (header msg));
            sensor_to_tracking =
              LookupToTracking env t (CheckNoLeadingSlash (frame_id (header msg)))
        in case sensor_to_tracking of
             None \<Rightarrow> Inr None
           | Some tf \<Rightarrow>
               if \<not> norm3 (Rigid3_translation env tf) < 1 / 100000 then Inl CheckFailed
               else Inr (Some (ImuData t
                 (Quaternion_apply env (Rigid3_rotation env tf)
                    (ToEigen env (linear_acceleration msg)))
                 (Quaternion_apply env (Rigid3_rotation env tf)
                    (ToEigen env (angular_velocity msg))))))"

definition HandleImuMessage ::
  "('tf, 'q) collaborators \<Rightarrow> 'tf SensorBridge \<Rightarrow> string \<Rightarrow> Imu \<Rightarrow> 'tf outcome" where
  "HandleImuMessage env st sensor_id msg =
     (case ToImuData env msg of
        Inl e \<Rightarrow> ([], Inl e)
      | Inr None \<Rightarrow> ([], Inr st)
      | Inr (Some (ImuData t a w)) \<Rightarrow> ([(sensor_id, Imu_data (ImuData t a w))], Inr st))"

subsection \<open>Range finders\<close>

definition HandleRangefinder ::
  "('tf, 'q) collaborators \<Rightarrow> 'tf SensorBridge \<Rightarrow> string \<Rightarrow> Time \<Rightarrow> string \<Rightarrow>
     TimedPointCloud \<Rightarrow> 'tf outcome" where
  "HandleRangefinder env st sensor_id t frame rs =
     (case LookupToTracking env t (CheckNoLeadingSlash frame) of
        None \<Rightarrow> ([], Inr st)
      | Some tf \<Rightarrow>
          ([(sensor_id, TimedPointCloud_data (TimedPointCloudData t
               (Vector3_cast_float env (Rigid3_translation env tf))
               (TransformTimedPointCloud env rs (Rigid3_cast_float env tf))))],
           Inr st))"

subsection \<open>Laser scans\<close>

text \<open>
  The conversion of an \<open>int\<close> to \<open>size_t\<close>, and the two index expressions of the
  loop: \<open>points.points.size() * i / num_subdivisions_per_laser_scan_\<close> multiplies and
  divides in \<open>size_t\<close>.
\<close>

definition size_t_of_int :: "int \<Rightarrow> nat" where
  "size_t_of_int i = nat (i mod 2 ^ 64)"

definition start_index :: "nat \<Rightarrow> int \<Rightarrow> int \<Rightarrow> nat" where
  "start_index n i k = (n * size_t_of_int i) mod 2 ^ 64 div size_t_of_int k"

definition end_index :: "nat \<Rightarrow> int \<Rightarrow> int \<Rightarrow> nat" where
  "end_index n i k = (n * size_t_of_int (i + 1)) mod 2 ^ 64 div size_t_of_int k"

text \<open>The vector built from \<open>begin() + start_index\<close> and \<open>begin() + end_index\<close>.\<close>

definition subdivision_of :: "TimedPointCloud \<Rightarrow> int \<Rightarrow> int \<Rightarrow> TimedPointCloud" where
  "subdivision_of pts i k =
     take (end_index (length pts) i k - start_index (length pts) i k)
       (drop (start_index (length pts) i k) pts)"

text \<open>
  The loop \<open>for (Eigen::Vector4f& point : subdivision) point[3] -= ...\<close>. The
  \<open>float\<close> \<open>point[3]\<close> and the \<open>double\<close> \<open>time_to_subdivision_end\<close> are subtracted
  as \<open>double\<close>s and the difference is stored as a \<open>float\<close>.
\<close>

definition rebase ::
  "('tf, 'q) collaborators \<Rightarrow> real \<Rightarrow> TimedPointCloud \<Rightarrow> TimedPointCloud" where
  "rebase env time_to_subdivision_end subdivision =
     map (\<lambda>point.
            point\<lparr>v3 := to_float env (to_double env (v3 point - time_to_subdivision_end))\<rparr>)
       subdivision"

text \<open>
  One pass through the body of the \<open>for\<close> loop of \<open>HandleLaserScan\<close>, at counter
  \<open>i\<close>. A division by zero and an iterator range that is reversed or leaves the
  vector are undefined behaviour.
\<close>

definition HandleLaserScan_body ::
  "('tf, 'q) collaborators \<Rightarrow> 'tf SensorBridge \<Rightarrow> string \<Rightarrow> Time \<Rightarrow> string \<Rightarrow>
     TimedPointCloud \<Rightarrow> int \<Rightarrow> 'tf outcome" where
  "HandleLaserScan_body env st sensor_id t frame pts i =
     (let k = num_subdivisions_per_laser_scan st in
      if size_t_of_int k = 0 then ([], Inl UndefinedBehavior)
      else if end_index (length pts) i k < start_index (length pts) i k
              \<or> length pts < end_index (length pts) i k
      then ([], Inl UndefinedBehavior)
      else
        let subdivision = subdivision_of pts i k in
        if start_index (length pts) i k = end_index (length pts) i k then ([], Inr st)
        else
          let time_to_subdivision_end = v3 (last subdivision);
              subdivision_time = t + FromSeconds env time_to_subdivision_end
          in
          if (case sensor_to_previous_subdivision_time st sensor_id of
                None \<Rightarrow> False
              | Some previous \<Rightarrow> previous \<ge> subdivision_time)
          then ([], Inr st)
          else
            let st' = st\<lparr>sensor_to_previous_subdivision_time :=
                          (sensor_to_previous_subdivision_time st)
                            (sensor_id \<mapsto> subdivision_time)\<rparr>;
                subdivision' = rebase env time_to_subdivision_end subdivision
            in
            if v3 (last subdivision') \<noteq> 0 then ([], Inl CheckFailed)
            else HandleRangefinder env st' sensor_id subdivision_time frame subdivision')"

definition INT_MAX :: int where
  "INT_MAX = 2147483647"

text \<open>
  The \<open>for\<close> loop from counter \<open>i\<close> on. The loop ends when \<open>i\<close> equals the number
  of subdivisions; at \<open>INT_MAX\<close> the expression \<open>i + 1\<close> overflows, which is
  undefined behaviour.
\<close>

function HandleLaserScan_loop ::
  "('tf, 'q) collaborators \<Rightarrow> 'tf SensorBridge \<Rightarrow> string \<Rightarrow> Time \<Rightarrow> string \<Rightarrow>
     TimedPointCloud \<Rightarrow> int \<Rightarrow> 'tf outcome" where
  "HandleLaserScan_loop env st sensor_id t frame pts i =
     (if i = num_subdivisions_per_laser_scan st then ([], Inr st)
      else if INT_MAX \<le> i then ([], Inl UndefinedBehavior)
      else
        (case HandleLaserScan_body env st sensor_id t frame pts i of
           (out, Inl e) \<Rightarrow> (out, Inl e)
         | (out, Inr st') \<Rightarrow>
             (case HandleLaserScan_loop env st' sensor_id t frame pts (i + 1) of
                (out', r) \<Rightarrow> (out @ out', r))))"
  by pat_completeness auto
termination
  by (relation "measure (\<lambda>(env, st, sensor_id, t, frame, pts, i). nat (INT_MAX - i))") auto

declare HandleLaserScan_loop.simps [simp del]

definition HandleLaserScan ::
  "('tf, 'q) collaborators \<Rightarrow> 'tf SensorBridge \<Rightarrow> string \<Rightarrow> Time \<Rightarrow> string \<Rightarrow>
     PointCloudWithIntensities \<Rightarrow> 'tf outcome" where
  "HandleLaserScan env st sensor_id t frame pc =
     (if points pc = [] then ([], Inr st)
      else if \<not> v3 (last (points pc)) \<le> 0 then ([], Inl CheckFailed)
      else HandleLaserScan_loop env st sensor_id t frame (points pc) 0)"

definition HandleLaserScanMessage ::
  "('tf, 'q) collaborators \<Rightarrow> 'tf SensorBridge \<Rightarrow> string \<Rightarrow> LaserScan \<Rightarrow> 'tf outcome" where
  "HandleLaserScanMessage env st sensor_id msg =
     (case ToPointCloudWithIntensities env msg of
        (point_cloud, t) \<Rightarrow>
          HandleLaserScan env st sensor_id t (frame_id (header msg)) point_cloud)"

definition HandleMultiEchoLaserScanMessage ::
  "('tf, 'q) collaborators \<Rightarrow> 'tf SensorBridge \<Rightarrow> string \<Rightarrow> MultiEchoLaserScan \<Rightarrow>
     'tf outcome" where
  "HandleMultiEchoLaserScanMessage env st sensor_id msg =
     (case ToPointCloudWithIntensities_MultiEcho env msg of
        (point_cloud, t) \<Rightarrow>
          HandleLaserScan env st sensor_id t (frame_id (header msg)) point_cloud)"

subsection \<open>Point clouds\<close>

text \<open>
  The four loops over \<open>pcl_point_cloud.points\<close>: a point for which \<open>isnan\<close> or
  \<open>isinf\<close> holds is passed over (\<open>continue\<close>), every other point is appended
  (\<open>emplace_back\<close>) with its relative time, which \<open>emplace_back\<close> stores as a
  \<open>float\<close>.

  The literal \<open>1e-9f\<close> is the \<open>float\<close> nearest to \<open>1 / 1000000000\<close>, which is
  \<open>9007199 / 2 ^ 53\<close>. In \<open>point.t * 1e-9f\<close> the \<open>uint32_t\<close> is converted to
  \<open>float\<close> and the product is a \<open>float\<close>; the differences
  \<open>point.t * 1e-9f - rel_time_last\<close>, \<open>point.time - rel_time_last\<close> and
  \<open>point.timestamp - rel_time_last\<close> are computed as \<open>double\<close>s, \<open>rel_time_last\<close>
  being a \<open>double\<close>.
\<close>

definition literal_1e_9f :: real where
  "literal_1e_9f = 9007199 / 2 ^ 53"

fun ouster_loop ::
  "('tf, 'q) collaborators \<Rightarrow> real \<Rightarrow> OusterPointXYZIRT list \<Rightarrow> TimedPointCloud \<Rightarrow>
     TimedPointCloud" where
  "ouster_loop env rel_time_last [] point_cloud = point_cloud"
| "ouster_loop env rel_time_last (point # rest) point_cloud =
     (if isnan_Ouster env point \<or> isinf_Ouster env point
      then ouster_loop env rel_time_last rest point_cloud
      else ouster_loop env rel_time_last rest
             (point_cloud @
                [\<lparr>v0 = point_x point, v1 = point_y point, v2 = point_z point,
                  v3 = to_float env
                         (to_double env
                            (to_float env
                               (to_float env (real (unat (ouster_t point))) * literal_1e_9f)
                             - rel_time_last))\<rparr>]))"

fun velodyne_loop ::
  "('tf, 'q) collaborators \<Rightarrow> real \<Rightarrow> PointXYZIRT list \<Rightarrow> TimedPointCloud \<Rightarrow>
     TimedPointCloud" where
  "velodyne_loop env rel_time_last [] point_cloud = point_cloud"
| "velodyne_loop env rel_time_last (point # rest) point_cloud =
     (if isnan_Velodyne env point \<or> isinf_Velodyne env point
      then velodyne_loop env rel_time_last rest point_cloud
      else velodyne_loop env rel_time_last rest
             (point_cloud @
                [\<lparr>v0 = point_x point, v1 = point_y point, v2 = point_z point,
                  v3 = to_float env (to_double env (velodyne_time point - rel_time_last))\<rparr>]))"

fun robosense_loop ::
  "('tf, 'q) collaborators \<Rightarrow> real \<Rightarrow> RsPointXYZIRT list \<Rightarrow> TimedPointCloud \<Rightarrow>
     TimedPointCloud" where
  "robosense_loop env rel_time_last [] point_cloud = point_cloud"
| "robosense_loop env rel_time_last (point # rest) point_cloud =
     (if isnan_Rs env point \<or> isinf_Rs env point
      then robosense_loop env rel_time_last rest point_cloud
      else robosense_loop env rel_time_last rest
             (point_cloud @
                [\<lparr>v0 = point_x point, v1 = point_y point, v2 = point_z point,
                  v3 = to_float env (to_double env (rs_timestamp point - rel_time_last))\<rparr>]))"

fun xyzi_loop ::
  "('tf, 'q) collaborators \<Rightarrow> PointXYZI list \<Rightarrow> TimedPointCloud \<Rightarrow> TimedPointCloud" where
  "xyzi_loop env [] point_cloud = point_cloud"
| "xyzi_loop env (point # rest) point_cloud =
     (if isnan_XYZI env point \<or> isinf_XYZI env point
      then xyzi_loop env rest point_cloud
      else xyzi_loop env rest
             (point_cloud @
                [\<lparr>v0 = point_x point, v1 = point_y point, v2 = point_z point, v3 = 0\<rparr>]))"

text \<open>
  \<open>points.back()\<close> of an empty vector is undefined behaviour; the first three
  branches call it before the loop.
\<close>

definition HandlePointCloud2Message ::
  "('tf, 'q) collaborators \<Rightarrow> 'tf SensorBridge \<Rightarrow> string \<Rightarrow> PointCloud2 \<Rightarrow> string \<Rightarrow>
     'tf outcome" where
  "HandlePointCloud2Message env st sensor_id msg sensor_type =
     (if sensor_type = ''ouster'' then
        (let pcl_point_cloud = fromROSMsg_Ouster env msg in
         if pcl_point_cloud = [] then ([], Inl UndefinedBehavior)
         else
           let rel_time_last =
                 to_float env
                   (to_float env (real (unat (ouster_t (last pcl_point_cloud)))) * literal_1e_9f);
               point_cloud = ouster_loop env rel_time_last pcl_point_cloud [];
               point_cloud_stamp =
                 FromRos env (stamp (header msg)) + FromSeconds env rel_time_last
           in HandleRangefinder env st sensor_id point_cloud_stamp
                (frame_id (header msg)) point_cloud)
      else if sensor_type = ''velodyne'' then
        (let pcl_point_cloud = fromROSMsg_Velodyne env msg in
         if pcl_point_cloud = [] then ([], Inl UndefinedBehavior)
         else
           let rel_time_last = velodyne_time (last pcl_point_cloud);
               point_cloud = velodyne_loop env rel_time_last pcl_point_cloud [];
               point_cloud_stamp =
                 FromRos env (stamp (header msg)) + FromSeconds env rel_time_last
           in HandleRangefinder env st sensor_id point_cloud_stamp
                (frame_id (header msg)) point_cloud)
      else if sensor_type = ''robosense'' then
        (let pcl_point_cloud = fromROSMsg_Rs env msg in
         if pcl_point_cloud = [] then ([], Inl UndefinedBehavior)
         else
           let rel_time_last = rs_timestamp (last pcl_point_cloud);
               point_cloud = robosense_loop env rel_time_last pcl_point_cloud [];
               point_cloud_stamp = FromRos env (stamp (header msg))
           in HandleRangefinder env st sensor_id point_cloud_stamp
                (frame_id (header msg)) point_cloud)
      else
        (let pcl_point_cloud = fromROSMsg_XYZI env msg;
             point_cloud = xyzi_loop env pcl_point_cloud [];
             point_cloud_stamp = FromRos env (stamp (header msg))
         in HandleRangefinder env st sensor_id point_cloud_stamp
              (frame_id (header msg)) point_cloud))"

subsection \<open>Message histories\<close>

text \<open>
  The public handlers of the bridge, as one datatype of calls, and the bridge handling
  a list of calls one after the other. An error ends the process, so the calls after
  it are not handled.
\<close>

datatype call =
    OdometryMessage string Odometry
  | NavSatFixMessage string NavSatFix
  | LandmarkMessage string LandmarkList
  | ImuMessage string Imu
  | LaserScanMessage string LaserScan
  | MultiEchoLaserScanMessage string MultiEchoLaserScan
  | PointCloud2Message string PointCloud2 string

fun Handle :: "('tf, 'q) collaborators \<Rightarrow> 'tf SensorBridge \<Rightarrow> call \<Rightarrow> 'tf outcome" where
  "Handle env st (OdometryMessage sensor_id msg) = HandleOdometryMessage env st sensor_id msg"
| "Handle env st (NavSatFixMessage sensor_id msg) = HandleNavSatFixMessage env st sensor_id msg"
| "Handle env st (LandmarkMessage sensor_id msg) = HandleLandmarkMessage env st sensor_id msg"
| "Handle env st (ImuMessage sensor_id msg) = HandleImuMessage env st sensor_id msg"
| "Handle env st (LaserScanMessage sensor_id msg) = HandleLaserScanMessage env st sensor_id msg"
| "Handle env st (MultiEchoLaserScanMessage sensor_id msg) =
     HandleMultiEchoLaserScanMessage env st sensor_id msg"
| "Handle env st (PointCloud2Message sensor_id msg sensor_type) =
     HandlePointCloud2Message env st sensor_id msg sensor_type"

fun in_order ::
  "('s \<Rightarrow> 'a \<Rightarrow> 'o list \<times> (error + 's)) \<Rightarrow> 's \<Rightarrow> 'a list \<Rightarrow> 'o list \<times> (error + 's)" where
  "in_order step st [] = ([], Inr st)"
| "in_order step st (a # as) =
     (case step st a of
        (out, Inl e) \<Rightarrow> (out, Inl e)
      | (out, Inr st') \<Rightarrow> (case in_order step st' as of (out', r) \<Rightarrow> (out @ out', r)))"

definition HandleAll ::
  "('tf, 'q) collaborators \<Rightarrow> 'tf SensorBridge \<Rightarrow> call list \<Rightarrow> 'tf outcome" where
  "HandleAll env st calls = in_order (Handle env) st calls"

text \<open>
  \<open>HandleLaserScan\<close> called for a list of scans, each a sensor id, a time, a frame id
  and a point cloud.
\<close>

definition HandleLaserScans ::
  "('tf, 'q) collaborators \<Rightarrow> 'tf SensorBridge \<Rightarrow>
     (string \<times> Time \<times> string \<times> PointCloudWithIntensities) list \<Rightarrow> 'tf outcome" where
  "HandleLaserScans env st scans =
     in_order (\<lambda>s (sensor_id, t, frame, pc). HandleLaserScan env s sensor_id t frame pc)
       st scans"

text \<open>The time stamp of a sensor record.\<close>

fun time_of :: "'tf SensorData \<Rightarrow> Time" where
  "time_of (Odometry_data (OdometryData t p)) = t"
| "time_of (FixedFramePose_data (FixedFramePoseData t p)) = t"
| "time_of (Imu_data (ImuData t a w)) = t"
| "time_of (TimedPointCloud_data (TimedPointCloudData t origin rs)) = t"
| "time_of (Landmark_data (LandmarkData t obs)) = t"

text \<open>The time stamps of the records forwarded for one sensor id, in order.\<close>

definition times_for :: "string \<Rightarrow> 'tf AddSensorData list \<Rightarrow> Time list" where
  "times_for sensor_id out = map (time_of \<circ> snd) (filter (\<lambda>r. fst r = sensor_id) out)"

text \<open>
  The order of the time stamps forwarded for one sensor id in a run that starts in
  \<open>st\<close>, forwards \<open>out\<close> and ends with \<open>r\<close>: the stamps increase strictly, they
  lie after the time recorded for the sensor in \<open>st\<close>, and if the run ends in a bridge
  \<open>st'\<close> then they lie at or before the time recorded in \<open>st'\<close>, which is not
  earlier than the one recorded in \<open>st\<close>.
\<close>

definition times_increase ::
  "string \<Rightarrow> 'tf SensorBridge \<Rightarrow> 'tf AddSensorData list \<Rightarrow> error + 'tf SensorBridge \<Rightarrow> bool"
  where
  "times_increase x st out r \<longleftrightarrow>
     sorted_wrt (<) (times_for x out)
     \<and> (\<forall>p u. sensor_to_previous_subdivision_time st x = Some p \<and> u \<in> set (times_for x out)
            \<longrightarrow> p < u)
     \<and> (\<forall>st'. r = Inr st' \<longrightarrow>
          (\<forall>u. u \<in> set (times_for x out) \<longrightarrow>
             (\<exists>p'. sensor_to_previous_subdivision_time st' x = Some p' \<and> u \<le> p'))
          \<and> (\<forall>p. sensor_to_previous_subdivision_time st x = Some p \<longrightarrow>
             (\<exists>p'. sensor_to_previous_subdivision_time st' x = Some p' \<and> p \<le> p')))"

text \<open>
  The calls whose handlers neither read nor write a data member of the bridge: all but
  the satellite fixes and the two kinds of laser scan.
\<close>

fun reads_no_state :: "call \<Rightarrow> bool" where
  "reads_no_state (OdometryMessage sensor_id msg) = True"
| "reads_no_state (NavSatFixMessage sensor_id msg) = False"
| "reads_no_state (LandmarkMessage sensor_id msg) = True"
| "reads_no_state (ImuMessage sensor_id msg) = True"
| "reads_no_state (LaserScanMessage sensor_id msg) = False"
| "reads_no_state (MultiEchoLaserScanMessage sensor_id msg) = False"
| "reads_no_state (PointCloud2Message sensor_id msg sensor_type) = True"

text \<open>The first satellite message of a history whose status is not \<open>STATUS_NO_FIX\<close>.\<close>

fun first_fix :: "call list \<Rightarrow> NavSatFix option" where
  "first_fix [] = None"
| "first_fix (NavSatFixMessage sensor_id msg # calls) =
     (if status_status msg = STATUS_NO_FIX then first_fix calls else Some msg)"
| "first_fix (c # calls) = first_fix calls"

subsection \<open>A small instance\<close>

text \<open>
  Collaborators in which every rigid transform is a translation (a vector, composed by
  addition) and the only rotation is the identity; a tick is 100 nanoseconds and
  \<open>FromSeconds\<close> drops the fraction of a tick, as the conversion of a \<open>double\<close>
  to an integer does. The frames \<open>imu\<close>, \<open>laser\<close> and \<open>gyro\<close> are known to the
  transform lookup.

  Every number in the instances below is a fraction whose denominator is a power of
  two, small enough to be a \<open>float\<close>, and so is every sum, difference and product
  that the bridge forms of them: \<open>to_float\<close> and \<open>to_double\<close> meet only values
  that they leave unchanged, and are the identity here.
\<close>

definition example_env :: "(Vector3, unit) collaborators" where
  "example_env =
     \<lparr>FromRos = (\<lambda>t. int (unat (sec t)) * 10000000 + int (unat (nsec t)) div 100),
      FromSeconds =
        (\<lambda>s. if 0 \<le> s then \<lfloor>s * 10000000\<rfloor> else - \<lfloor>- s * 10000000\<rfloor>),
      LookupToTracking =
        (\<lambda>t frame.
           if frame = ''imu'' then Some (0, 0, 0)
           else if frame = ''laser'' then Some (1, 0, 0)
           else if frame = ''gyro'' then Some (0, 2, 0)
           else None),
      ToRigid3d = position,
      ToEigen = (\<lambda>v. v),
      ToLandmarkData =
        (\<lambda>msg. LandmarkData
           (int (unat (sec (stamp (header msg)))) * 10000000
              + int (unat (nsec (stamp (header msg)))) div 100)
           (map (\<lambda>(name, p, tw, rw). (name, position p, tw, rw)) (landmarks msg))),
      ToPointCloudWithIntensities =
        (\<lambda>msg. (\<lparr>points =
                     map (\<lambda>(j, r). \<lparr>v0 = r, v1 = 0, v2 = 0,
                                      v3 = - (time_increment msg
                                              * real (length (ranges msg) - 1 - j))\<rparr>)
                       (enumerate 0 (ranges msg)),
                   intensities = scan_intensities msg\<rparr>,
                 int (unat (sec (stamp (header msg)))) * 10000000
                   + int (unat (nsec (stamp (header msg)))) div 100)),
      ToPointCloudWithIntensities_MultiEcho =
        (\<lambda>msg. (\<lparr>points = map (\<lambda>r. \<lparr>v0 = hd r, v1 = 0, v2 = 0, v3 = 0\<rparr>)
                              (filter (\<lambda>r. r \<noteq> []) (echo_ranges msg)),
                   intensities = []\<rparr>,
                 int (unat (sec (stamp (header msg)))) * 10000000
                   + int (unat (nsec (stamp (header msg)))) div 100)),
      ComputeLocalFrameFromLatLong = (\<lambda>lat long. (- lat, - long, 0)),
      LatLongAltToEcef = (\<lambda>lat long alt. (lat, long, alt)),
      Rigid3_times = (\<lambda>(a, b, c) (a', b', c'). (a + a', b + b', c + c')),
      Rigid3_inverse = (\<lambda>(a, b, c). (- a, - b, - c)),
      Rigid3_translation = (\<lambda>v. v),
      Rigid3_rotation = (\<lambda>v. ()),
      Rigid3_apply = (\<lambda>(a, b, c) (a', b', c'). (a + a', b + b', c + c')),
      Rigid3_Translation = (\<lambda>v. v),
      Rigid3_cast_float = (\<lambda>v. v),
      Quaternion_apply = (\<lambda>q v. v),
      Vector3_cast_float = (\<lambda>v. v),
      TransformTimedPointCloud =
        (\<lambda>pts (a, b, c). map (\<lambda>p. p\<lparr>v0 := v0 p + a, v1 := v1 p + b, v2 := v2 p + c\<rparr>) pts),
      fromROSMsg_Ouster =
        (\<lambda>msg. map (\<lambda>b. \<lparr>point_x = real (unat b), point_y = 0, point_z = 0,
                              ouster_t = 16777216 * ucast b\<rparr>) (data msg)),
      fromROSMsg_Velodyne =
        (\<lambda>msg. map (\<lambda>b. \<lparr>point_x = real (unat b), point_y = 0, point_z = 0,
                              velodyne_time = real (unat b) / 8\<rparr>) (data msg)),
      fromROSMsg_Rs =
        (\<lambda>msg. map (\<lambda>b. \<lparr>point_x = real (unat b), point_y = 0, point_z = 0,
                              rs_timestamp = 5 + real (unat b) / 8\<rparr>) (data msg)),
      fromROSMsg_XYZI =
        (\<lambda>msg. map (\<lambda>b. \<lparr>point_x = real (unat b), point_y = 0, point_z = 0,
                              intensity = 1\<rparr>) (data msg)),
      isnan_Ouster = (\<lambda>p. False),
      isinf_Ouster = (\<lambda>p. point_x p = 255),
      isnan_Velodyne = (\<lambda>p. False),
      isinf_Velodyne = (\<lambda>p. point_x p = 255),
      isnan_Rs = (\<lambda>p. False),
      isinf_Rs = (\<lambda>p. point_x p = 255),
      isnan_XYZI = (\<lambda>p. False),
      isinf_XYZI = (\<lambda>p. point_x p = 255),
      to_float = (\<lambda>r. r),
      to_double = (\<lambda>r. r)\<rparr>"

definition example_bridge :: "Vector3 SensorBridge" where
  "example_bridge =
     \<lparr>num_subdivisions_per_laser_scan = 2,
      sensor_to_previous_subdivision_time = Map.empty,
      ecef_to_local_frame = None\<rparr>"

definition example_scan :: PointCloudWithIntensities where
  "example_scan =
     \<lparr>points =
        [\<lparr>v0 = 1, v1 = 0, v2 = 0, v3 = - 3 / 4\<rparr>,
         \<lparr>v0 = 2, v1 = 0, v2 = 0, v3 = - 1 / 2\<rparr>,
         \<lparr>v0 = 3, v1 = 0, v2 = 0, v3 = - 1 / 4\<rparr>,
         \<lparr>v0 = 4, v1 = 0, v2 = 0, v3 = 0\<rparr>],
      intensities = [1, 1, 1, 1]\<rparr>"

definition example_imu :: Imu where
  "example_imu =
     \<lparr>header = \<lparr>seq = 7, stamp = \<lparr>sec = 5, nsec = 0\<rparr>, frame_id = ''/imu''\<rparr>,
      angular_velocity = (0, 0, 1),
      angular_velocity_covariance = [0, 0, 0, 0, 0, 0, 0, 0, 0],
      linear_acceleration = (0, 0, 10),
      linear_acceleration_covariance = [0, 0, 0, 0, 0, 0, 0, 0, 0]\<rparr>"

definition example_odometry :: Odometry where
  "example_odometry =
     \<lparr>header = \<lparr>seq = 8, stamp = \<lparr>sec = 5, nsec = 0\<rparr>, frame_id = ''odom''\<rparr>,
      child_frame_id = ''/laser'',
      pose_pose = \<lparr>position = (4, 5, 6), orientation = (0, 0, 0, 1)\<rparr>\<rparr>"

definition example_laser_scan :: LaserScan where
  "example_laser_scan =
     \<lparr>header = \<lparr>seq = 9, stamp = \<lparr>sec = 5, nsec = 0\<rparr>, frame_id = ''/laser''\<rparr>,
      angle_min = 0, angle_max = 3, angle_increment = 1, time_increment = 1 / 4,
      scan_time = 3 / 4, range_min = 0, range_max = 10,
      ranges = [1, 2, 3, 4], scan_intensities = [1, 1, 1, 1]\<rparr>"

definition example_fix :: "real \<Rightarrow> real \<Rightarrow> NavSatFix" where
  "example_fix lat long =
     \<lparr>header = \<lparr>seq = 10, stamp = \<lparr>sec = 5, nsec = 0\<rparr>, frame_id = ''gps''\<rparr>,
      status_status = 0, latitude = lat, longitude = long, altitude = 0\<rparr>"


text \<open>
  The same messages from a frame the lookup does not know, and the IMU message from
  the frame \<open>gyro\<close>, which lies two metres from the tracking frame.
\<close>

definition example_odometry_unknown :: Odometry where
  "example_odometry_unknown = example_odometry\<lparr>child_frame_id := ''wheel''\<rparr>"

definition example_imu_unknown :: Imu where
  "example_imu_unknown =
     example_imu\<lparr>header := \<lparr>seq = 7, stamp = \<lparr>sec = 5, nsec = 0\<rparr>, frame_id = ''compass''\<rparr>\<rparr>"

definition example_imu_gyro :: Imu where
  "example_imu_gyro =
     example_imu\<lparr>header := \<lparr>seq = 7, stamp = \<lparr>sec = 5, nsec = 0\<rparr>, frame_id = ''gyro''\<rparr>\<rparr>"





text \<open>A scan with no echoes, and a satellite message without a fix.\<close>

definition example_echo_scan :: MultiEchoLaserScan where
  "example_echo_scan =
     \<lparr>header = \<lparr>seq = 12, stamp = \<lparr>sec = 5, nsec = 0\<rparr>, frame_id = ''/laser''\<rparr>,
      echo_angle_min = 0, echo_angle_max = 0, echo_angle_increment = 1,
      echo_time_increment = 0, echo_scan_time = 0, echo_range_min = 0, echo_range_max = 10,
      echo_ranges = [], echo_intensities = []\<rparr>"

definition example_no_fix :: NavSatFix where
  "example_no_fix = (example_fix 0 0)\<lparr>status_status := - 1\<rparr>"

section \<open>Properties\<close>

subsection \<open>The small instance\<close>

lemma example_env_sel [simp]:
  "FromRos example_env = (\<lambda>t. int (unat (sec t)) * 10000000 + int (unat (nsec t)) div 100)"
  "FromSeconds example_env =
     (\<lambda>s. if 0 \<le> s then \<lfloor>s * 10000000\<rfloor> else - \<lfloor>- s * 10000000\<rfloor>)"
  "LookupToTracking example_env =
     (\<lambda>t frame.
        if frame = ''imu'' then Some (0, 0, 0)
        else if frame = ''laser'' then Some (1, 0, 0)
        else if frame = ''gyro'' then Some (0, 2, 0)
        else None)"
  "ToRigid3d example_env = position"
  "ToEigen example_env = (\<lambda>v. v)"
  "Rigid3_times example_env = (\<lambda>(a, b, c) (a', b', c'). (a + a', b + b', c + c'))"
  "Rigid3_inverse example_env = (\<lambda>(a, b, c). (- a, - b, - c))"
  "Rigid3_translation example_env = (\<lambda>v. v)"
  "Rigid3_rotation example_env = (\<lambda>v. ())"
  "Rigid3_apply example_env = (\<lambda>(a, b, c) (a', b', c'). (a + a', b + b', c + c'))"
  "Rigid3_Translation example_env = (\<lambda>v. v)"
  "Rigid3_cast_float example_env = (\<lambda>v. v)"
  "Quaternion_apply example_env = (\<lambda>q v. v)"
  "Vector3_cast_float example_env = (\<lambda>v. v)"
  "TransformTimedPointCloud example_env =
     (\<lambda>pts (a, b, c). map (\<lambda>p. p\<lparr>v0 := v0 p + a, v1 := v1 p + b, v2 := v2 p + c\<rparr>) pts)"
  "ComputeLocalFrameFromLatLong example_env = (\<lambda>lat long. (- lat, - long, 0))"
  "LatLongAltToEcef example_env = (\<lambda>lat long alt. (lat, long, alt))"
  "to_float example_env = (\<lambda>r. r)"
  "to_double example_env = (\<lambda>r. r)"
  by (simp_all add: example_env_def)

subsection \<open>Frame ids\<close>

text \<open>
  C10. \<open>CheckNoLeadingSlash\<close> removes exactly one leading slash when the frame id is
  longer than one character and begins with a slash; the empty string, the string
  \<open>/\<close> and every string that does not begin with a slash come back unchanged.
\<close>

theorem CheckNoLeadingSlash_spec:
  "CheckNoLeadingSlash frame =
     (if 1 < length frame \<and> hd frame = CHR ''/'' then tl frame else frame)
   \<and> CheckNoLeadingSlash (CHR ''/'' # c # cs) = c # cs
   \<and> CheckNoLeadingSlash [] = []
   \<and> CheckNoLeadingSlash ''/'' = ''/''"
  by (cases frame) (simp_all add: CheckNoLeadingSlash_def drop_Suc)

subsection \<open>Odometry\<close>

text \<open>
  C7. When the transform lookup succeeds for an odometry message, \<open>ToOdometryData\<close>
  returns a record whose time is the header stamp converted by \<open>FromRos\<close> and whose
  pose is the pose of the message composed with the inverse of the sensor-to-tracking
  transform looked up at that time.
\<close>

theorem ToOdometryData_spec:
  assumes "LookupToTracking env (FromRos env (stamp (header msg)))
             (CheckNoLeadingSlash (child_frame_id msg)) = Some sensor_to_tracking"
  shows "ToOdometryData env msg =
           Some (OdometryData (FromRos env (stamp (header msg)))
             (Rigid3_times env (ToRigid3d env (pose_pose msg))
                (Rigid3_inverse env sensor_to_tracking)))"
  using assms by (simp add: ToOdometryData_def)

theorem ToOdometryData_spec_witness:
  "LookupToTracking example_env (FromRos example_env (stamp (header example_odometry)))
     (CheckNoLeadingSlash (child_frame_id example_odometry)) = Some (1, 0, 0)
   \<and> ToOdometryData example_env example_odometry = Some (OdometryData 50000000 (3, 5, 6))"
proof -
  have h: "LookupToTracking example_env (FromRos example_env (stamp (header example_odometry)))
     (CheckNoLeadingSlash (child_frame_id example_odometry)) = Some (1, 0, 0)"
    by (simp add: example_odometry_def CheckNoLeadingSlash_def)
  show ?thesis
    using h ToOdometryData_spec [OF h] by (simp add: example_odometry_def)
qed

subsection \<open>The tracking frame\<close>

lemma HandleRangefinder_Some:
  "LookupToTracking env t (CheckNoLeadingSlash frame) = Some tf \<Longrightarrow>
   HandleRangefinder env st sensor_id t frame rs =
     ([(sensor_id, TimedPointCloud_data (TimedPointCloudData t
          (Vector3_cast_float env (Rigid3_translation env tf))
          (TransformTimedPointCloud env rs (Rigid3_cast_float env tf))))],
      Inr st)"
  by (simp add: HandleRangefinder_def)

lemma HandleRangefinder_None:
  "LookupToTracking env t (CheckNoLeadingSlash frame) = None \<Longrightarrow>
   HandleRangefinder env st sensor_id t frame rs = ([], Inr st)"
  by (simp add: HandleRangefinder_def)

lemma ToImuData_Some:
  "ToImuData env msg = Inr (Some d) \<Longrightarrow>
   \<exists>tf. LookupToTracking env (FromRos env (stamp (header msg)))
          (CheckNoLeadingSlash (frame_id (header msg))) = Some tf
      \<and> linear_acceleration_covariance msg ! 0 \<noteq> - 1
      \<and> angular_velocity_covariance msg ! 0 \<noteq> - 1
      \<and> norm3 (Rigid3_translation env tf) < 1 / 100000
      \<and> d = ImuData (FromRos env (stamp (header msg)))
            (Quaternion_apply env (Rigid3_rotation env tf)
               (ToEigen env (linear_acceleration msg)))
            (Quaternion_apply env (Rigid3_rotation env tf)
               (ToEigen env (angular_velocity msg)))"
  by (auto simp: ToImuData_def Let_def split: if_splits option.splits)

lemma HandleImuMessage_forwarded:
  "r \<in> set (fst (HandleImuMessage env st sensor_id msg)) \<Longrightarrow>
   \<exists>d. ToImuData env msg = Inr (Some d) \<and> r = (sensor_id, Imu_data d)"
  by (auto simp: HandleImuMessage_def split: sum.splits option.splits ImuData.splits)

text \<open>
  C5. What is forwarded is expressed in the tracking frame. Every record that
  \<open>HandleRangefinder\<close> forwards holds the points transformed by the sensor-to-tracking
  transform looked up at the measurement time, and its origin is the translation of
  that transform (both after the cast to \<open>float\<close>); such a record is forwarded
  whenever the lookup succeeds. Every record forwarded for an IMU message holds the
  linear acceleration and the angular velocity of the message rotated by the rotation
  of the sensor-to-tracking transform.
\<close>

theorem tracking_frame_spec:
  "(\<forall>r \<in> set (fst (HandleRangefinder env st sensor_id t frame rs)).
      \<exists>tf. LookupToTracking env t (CheckNoLeadingSlash frame) = Some tf
         \<and> r = (sensor_id, TimedPointCloud_data (TimedPointCloudData t
                  (Vector3_cast_float env (Rigid3_translation env tf))
                  (TransformTimedPointCloud env rs (Rigid3_cast_float env tf)))))
   \<and> (\<forall>tf. LookupToTracking env t (CheckNoLeadingSlash frame) = Some tf \<longrightarrow>
        fst (HandleRangefinder env st sensor_id t frame rs) =
          [(sensor_id, TimedPointCloud_data (TimedPointCloudData t
              (Vector3_cast_float env (Rigid3_translation env tf))
              (TransformTimedPointCloud env rs (Rigid3_cast_float env tf))))])
   \<and> (\<forall>r \<in> set (fst (HandleImuMessage env st imu_id msg)).
        \<exists>tf. LookupToTracking env (FromRos env (stamp (header msg)))
                (CheckNoLeadingSlash (frame_id (header msg))) = Some tf
           \<and> r = (imu_id, Imu_data (ImuData (FromRos env (stamp (header msg)))
                    (Quaternion_apply env (Rigid3_rotation env tf)
                       (ToEigen env (linear_acceleration msg)))
                    (Quaternion_apply env (Rigid3_rotation env tf)
                       (ToEigen env (angular_velocity msg))))))"
proof (intro conjI ballI allI impI)
  fix r assume "r \<in> set (fst (HandleRangefinder env st sensor_id t frame rs))"
  then show "\<exists>tf. LookupToTracking env t (CheckNoLeadingSlash frame) = Some tf
         \<and> r = (sensor_id, TimedPointCloud_data (TimedPointCloudData t
                  (Vector3_cast_float env (Rigid3_translation env tf))
                  (TransformTimedPointCloud env rs (Rigid3_cast_float env tf))))"
    by (cases "LookupToTracking env t (CheckNoLeadingSlash frame)")
       (simp_all add: HandleRangefinder_None HandleRangefinder_Some)
next
  fix tf assume "LookupToTracking env t (CheckNoLeadingSlash frame) = Some tf"
  then show "fst (HandleRangefinder env st sensor_id t frame rs) =
          [(sensor_id, TimedPointCloud_data (TimedPointCloudData t
              (Vector3_cast_float env (Rigid3_translation env tf))
              (TransformTimedPointCloud env rs (Rigid3_cast_float env tf))))]"
    by (simp add: HandleRangefinder_Some)
next
  fix r assume "r \<in> set (fst (HandleImuMessage env st imu_id msg))"
  then obtain d where d: "ToImuData env msg = Inr (Some d)" and r: "r = (imu_id, Imu_data d)"
    using HandleImuMessage_forwarded by blast
  from ToImuData_Some [OF d] r
  show "\<exists>tf. LookupToTracking env (FromRos env (stamp (header msg)))
                (CheckNoLeadingSlash (frame_id (header msg))) = Some tf
           \<and> r = (imu_id, Imu_data (ImuData (FromRos env (stamp (header msg)))
                    (Quaternion_apply env (Rigid3_rotation env tf)
                       (ToEigen env (linear_acceleration msg)))
                    (Quaternion_apply env (Rigid3_rotation env tf)
                       (ToEigen env (angular_velocity msg)))))"
    by blast
qed

lemma norm3_zero [simp]: "norm3 (0, 0, 0) = 0"
  by (simp add: norm3_def)

lemma example_imu_forwarded:
  "HandleImuMessage example_env example_bridge ''imu0'' example_imu =
     ([(''imu0'', Imu_data (ImuData 50000000 (0, 0, 10) (0, 0, 1)))], Inr example_bridge)"
  by (simp add: HandleImuMessage_def ToImuData_def example_imu_def CheckNoLeadingSlash_def)

lemma example_rangefinder_forwarded:
  "HandleRangefinder example_env example_bridge ''scan'' 7 ''/laser''
       [\<lparr>v0 = 1, v1 = 0, v2 = 0, v3 = 0\<rparr>] =
     ([(''scan'', TimedPointCloud_data (TimedPointCloudData 7 (1, 0, 0)
          [\<lparr>v0 = 2, v1 = 0, v2 = 0, v3 = 0\<rparr>]))], Inr example_bridge)"
  by (simp add: HandleRangefinder_def CheckNoLeadingSlash_def)

theorem tracking_frame_spec_witness:
  "(''scan'', TimedPointCloud_data (TimedPointCloudData 7 (1, 0, 0)
        [\<lparr>v0 = 2, v1 = 0, v2 = 0, v3 = 0\<rparr>]))
     \<in> set (fst (HandleRangefinder example_env example_bridge ''scan'' 7 ''/laser''
                   [\<lparr>v0 = 1, v1 = 0, v2 = 0, v3 = 0\<rparr>]))
   \<and> (\<exists>tf. LookupToTracking example_env 7 (CheckNoLeadingSlash ''/laser'') = Some tf
           \<and> ((''scan'', TimedPointCloud_data (TimedPointCloudData 7 (1, 0, 0)
                   [\<lparr>v0 = 2, v1 = 0, v2 = 0, v3 = 0\<rparr>])) :: Vector3 AddSensorData) =
               (''scan'', TimedPointCloud_data (TimedPointCloudData 7
                  (Vector3_cast_float example_env (Rigid3_translation example_env tf))
                  (TransformTimedPointCloud example_env [\<lparr>v0 = 1, v1 = 0, v2 = 0, v3 = 0\<rparr>]
                     (Rigid3_cast_float example_env tf)))))
   \<and> LookupToTracking example_env 7 (CheckNoLeadingSlash ''/laser'') = Some (1, 0, 0)
   \<and> fst (HandleRangefinder example_env example_bridge ''scan'' 7 ''/laser''
            [\<lparr>v0 = 1, v1 = 0, v2 = 0, v3 = 0\<rparr>]) =
       [(''scan'', TimedPointCloud_data (TimedPointCloudData 7
           (Vector3_cast_float example_env (Rigid3_translation example_env (1, 0, 0)))
           (TransformTimedPointCloud example_env [\<lparr>v0 = 1, v1 = 0, v2 = 0, v3 = 0\<rparr>]
              (Rigid3_cast_float example_env (1, 0, 0)))))]
   \<and> (''imu0'', Imu_data (ImuData 50000000 (0, 0, 10) (0, 0, 1)))
     \<in> set (fst (HandleImuMessage example_env example_bridge ''imu0'' example_imu))
   \<and> (\<exists>tf. LookupToTracking example_env (FromRos example_env (stamp (header example_imu)))
                (CheckNoLeadingSlash (frame_id (header example_imu))) = Some tf
           \<and> ((''imu0'', Imu_data (ImuData 50000000 (0, 0, 10) (0, 0, 1)))
                 :: Vector3 AddSensorData) =
               (''imu0'', Imu_data (ImuData (FromRos example_env (stamp (header example_imu)))
                    (Quaternion_apply example_env (Rigid3_rotation example_env tf)
                       (ToEigen example_env (linear_acceleration example_imu)))
                    (Quaternion_apply example_env (Rigid3_rotation example_env tf)
                       (ToEigen example_env (angular_velocity example_imu))))))"
proof -
  have a: "(''scan'', TimedPointCloud_data (TimedPointCloudData 7 (1, 0, 0)
        [\<lparr>v0 = 2, v1 = 0, v2 = 0, v3 = 0\<rparr>]))
     \<in> set (fst (HandleRangefinder example_env example_bridge ''scan'' 7 ''/laser''
                   [\<lparr>v0 = 1, v1 = 0, v2 = 0, v3 = 0\<rparr>]))"
    by (simp add: example_rangefinder_forwarded)
  have b: "LookupToTracking example_env 7 (CheckNoLeadingSlash ''/laser'') = Some (1, 0, 0)"
    by (simp add: CheckNoLeadingSlash_def)
  have c: "(''imu0'', Imu_data (ImuData 50000000 (0, 0, 10) (0, 0, 1)))
     \<in> set (fst (HandleImuMessage example_env example_bridge ''imu0'' example_imu))"
    by (simp add: example_imu_forwarded)
  note t = tracking_frame_spec [of example_env example_bridge "''scan''" 7 "''/laser''"
      "[\<lparr>v0 = 1, v1 = 0, v2 = 0, v3 = 0\<rparr>]" "''imu0''" example_imu]
  note shape = bspec [OF t [THEN conjunct1] a]
  note forwarded = t [THEN conjunct2, THEN conjunct1, rule_format, OF b]
  note rotated = bspec [OF t [THEN conjunct2, THEN conjunct2] c]
  from a shape b forwarded c rotated show ?thesis by (intro conjI)
qed

subsection \<open>Failed lookups and failed checks\<close>

lemma HandleOdometryMessage_None:
  "LookupToTracking env (FromRos env (stamp (header msg)))
     (CheckNoLeadingSlash (child_frame_id msg)) = None \<Longrightarrow>
   HandleOdometryMessage env st sensor_id msg = ([], Inr st)"
  by (simp add: HandleOdometryMessage_def ToOdometryData_def)

lemma HandleOdometryMessage_Some:
  "LookupToTracking env (FromRos env (stamp (header msg)))
     (CheckNoLeadingSlash (child_frame_id msg)) = Some tf \<Longrightarrow>
   HandleOdometryMessage env st sensor_id msg =
     ([(sensor_id, Odometry_data (OdometryData (FromRos env (stamp (header msg)))
          (Rigid3_times env (ToRigid3d env (pose_pose msg)) (Rigid3_inverse env tf))))],
      Inr st)"
  by (simp add: HandleOdometryMessage_def ToOdometryData_def)

lemma HandleImuMessage_None:
  "linear_acceleration_covariance msg ! 0 \<noteq> - 1 \<Longrightarrow>
   angular_velocity_covariance msg ! 0 \<noteq> - 1 \<Longrightarrow>
   LookupToTracking env (FromRos env (stamp (header msg)))
     (CheckNoLeadingSlash (frame_id (header msg))) = None \<Longrightarrow>
   HandleImuMessage env st sensor_id msg = ([], Inr st)"
  by (simp add: HandleImuMessage_def ToImuData_def)

lemma HandleImuMessage_Some:
  "linear_acceleration_covariance msg ! 0 \<noteq> - 1 \<Longrightarrow>
   angular_velocity_covariance msg ! 0 \<noteq> - 1 \<Longrightarrow>
   LookupToTracking env (FromRos env (stamp (header msg)))
     (CheckNoLeadingSlash (frame_id (header msg))) = Some tf \<Longrightarrow>
   norm3 (Rigid3_translation env tf) < 1 / 100000 \<Longrightarrow>
   HandleImuMessage env st sensor_id msg =
     ([(sensor_id, Imu_data (ImuData (FromRos env (stamp (header msg)))
          (Quaternion_apply env (Rigid3_rotation env tf)
             (ToEigen env (linear_acceleration msg)))
          (Quaternion_apply env (Rigid3_rotation env tf)
             (ToEigen env (angular_velocity msg)))))],
      Inr st)"
  by (simp add: HandleImuMessage_def ToImuData_def)

lemma HandleImuMessage_covariance:
  "linear_acceleration_covariance msg ! 0 = - 1 \<or> angular_velocity_covariance msg ! 0 = - 1 \<Longrightarrow>
   HandleImuMessage env st sensor_id msg = ([], Inl CheckFailed)"
  by (auto simp: HandleImuMessage_def ToImuData_def)

lemma HandleImuMessage_not_colocated:
  "LookupToTracking env (FromRos env (stamp (header msg)))
     (CheckNoLeadingSlash (frame_id (header msg))) = Some tf \<Longrightarrow>
   \<not> norm3 (Rigid3_translation env tf) < 1 / 100000 \<Longrightarrow>
   HandleImuMessage env st sensor_id msg = ([], Inl CheckFailed)"
  by (simp add: HandleImuMessage_def ToImuData_def)

lemma norm3_gyro: "norm3 (0, 2, 0) = 2"
proof -
  have "sqrt (2 * 2) = \<bar>2 :: real\<bar>" by (rule real_sqrt_abs2)
  then show ?thesis by (simp add: norm3_def)
qed

lemma example_imu_gyro_lookup:
  "LookupToTracking example_env (FromRos example_env (stamp (header example_imu_gyro)))
     (CheckNoLeadingSlash (frame_id (header example_imu_gyro))) = Some (0, 2, 0)"
  by (simp add: example_imu_gyro_def example_imu_def CheckNoLeadingSlash_def)

text \<open>
  C6 as stated fails: the transform of the frame \<open>gyro\<close> is found, but it is not at the
  origin of the tracking frame, the \<open>CHECK\<close> fails and no record is forwarded.
\<close>

theorem imu_lookup_counterexample:
  "LookupToTracking example_env (FromRos example_env (stamp (header example_imu_gyro)))
     (CheckNoLeadingSlash (frame_id (header example_imu_gyro))) = Some (0, 2, 0)
   \<and> HandleImuMessage example_env example_bridge ''imu0'' example_imu_gyro =
       ([], Inl CheckFailed)
   \<and> length (fst (HandleImuMessage example_env example_bridge ''imu0'' example_imu_gyro)) \<noteq> 1"
proof -
  have "HandleImuMessage example_env example_bridge ''imu0'' example_imu_gyro =
       ([], Inl CheckFailed)"
    by (rule HandleImuMessage_not_colocated [OF example_imu_gyro_lookup])
       (simp add: norm3_gyro)
  then show ?thesis
    using example_imu_gyro_lookup by simp
qed

text \<open>
  C6, amended. The frame of an odometry message (its child frame) and of an IMU
  message is looked up at the time of the message. For an odometry message, a failed
  lookup forwards nothing and a successful one forwards exactly one record; the bridge
  is unchanged. For an IMU message whose two covariances do not start with \<open>-1\<close> the
  same holds, provided the transform found lies within \<open>1e-5\<close> of the origin of the
  tracking frame. An IMU message that fails one of these checks ends the call with an
  error and forwards nothing.
\<close>

theorem lookup_spec:
  "(LookupToTracking env (FromRos env (stamp (header odom)))
       (CheckNoLeadingSlash (child_frame_id odom)) = None \<longrightarrow>
      HandleOdometryMessage env st odom_id odom = ([], Inr st))
   \<and> (\<forall>tf. LookupToTracking env (FromRos env (stamp (header odom)))
            (CheckNoLeadingSlash (child_frame_id odom)) = Some tf \<longrightarrow>
          HandleOdometryMessage env st odom_id odom =
            ([(odom_id, Odometry_data (OdometryData (FromRos env (stamp (header odom)))
                 (Rigid3_times env (ToRigid3d env (pose_pose odom))
                    (Rigid3_inverse env tf))))],
             Inr st))
   \<and> (linear_acceleration_covariance imu ! 0 \<noteq> - 1
        \<and> angular_velocity_covariance imu ! 0 \<noteq> - 1
        \<and> LookupToTracking env (FromRos env (stamp (header imu)))
            (CheckNoLeadingSlash (frame_id (header imu))) = None \<longrightarrow>
      HandleImuMessage env st imu_id imu = ([], Inr st))
   \<and> (\<forall>tf. linear_acceleration_covariance imu ! 0 \<noteq> - 1
          \<and> angular_velocity_covariance imu ! 0 \<noteq> - 1
          \<and> LookupToTracking env (FromRos env (stamp (header imu)))
              (CheckNoLeadingSlash (frame_id (header imu))) = Some tf
          \<and> norm3 (Rigid3_translation env tf) < 1 / 100000 \<longrightarrow>
          HandleImuMessage env st imu_id imu =
            ([(imu_id, Imu_data (ImuData (FromRos env (stamp (header imu)))
                 (Quaternion_apply env (Rigid3_rotation env tf)
                    (ToEigen env (linear_acceleration imu)))
                 (Quaternion_apply env (Rigid3_rotation env tf)
                    (ToEigen env (angular_velocity imu)))))],
             Inr st))
   \<and> (linear_acceleration_covariance imu ! 0 = - 1
        \<or> angular_velocity_covariance imu ! 0 = - 1
        \<or> (\<exists>tf. LookupToTracking env (FromRos env (stamp (header imu)))
                  (CheckNoLeadingSlash (frame_id (header imu))) = Some tf
                \<and> \<not> norm3 (Rigid3_translation env tf) < 1 / 100000) \<longrightarrow>
      HandleImuMessage env st imu_id imu = ([], Inl CheckFailed))"
proof (intro conjI allI impI)
  assume "LookupToTracking env (FromRos env (stamp (header odom)))
       (CheckNoLeadingSlash (child_frame_id odom)) = None"
  then show "HandleOdometryMessage env st odom_id odom = ([], Inr st)"
    by (rule HandleOdometryMessage_None)
next
  fix tf
  assume "LookupToTracking env (FromRos env (stamp (header odom)))
            (CheckNoLeadingSlash (child_frame_id odom)) = Some tf"
  then show "HandleOdometryMessage env st odom_id odom =
            ([(odom_id, Odometry_data (OdometryData (FromRos env (stamp (header odom)))
                 (Rigid3_times env (ToRigid3d env (pose_pose odom))
                    (Rigid3_inverse env tf))))],
             Inr st)"
    by (rule HandleOdometryMessage_Some)
next
  assume "linear_acceleration_covariance imu ! 0 \<noteq> - 1
        \<and> angular_velocity_covariance imu ! 0 \<noteq> - 1
        \<and> LookupToTracking env (FromRos env (stamp (header imu)))
            (CheckNoLeadingSlash (frame_id (header imu))) = None"
  then show "HandleImuMessage env st imu_id imu = ([], Inr st)"
    by (simp add: HandleImuMessage_None)
next
  fix tf
  assume "linear_acceleration_covariance imu ! 0 \<noteq> - 1
          \<and> angular_velocity_covariance imu ! 0 \<noteq> - 1
          \<and> LookupToTracking env (FromRos env (stamp (header imu)))
              (CheckNoLeadingSlash (frame_id (header imu))) = Some tf
          \<and> norm3 (Rigid3_translation env tf) < 1 / 100000"
  then show "HandleImuMessage env st imu_id imu =
            ([(imu_id, Imu_data (ImuData (FromRos env (stamp (header imu)))
                 (Quaternion_apply env (Rigid3_rotation env tf)
                    (ToEigen env (linear_acceleration imu)))
                 (Quaternion_apply env (Rigid3_rotation env tf)
                    (ToEigen env (angular_velocity imu)))))],
             Inr st)"
    by (simp add: HandleImuMessage_Some)
next
  assume "linear_acceleration_covariance imu ! 0 = - 1
        \<or> angular_velocity_covariance imu ! 0 = - 1
        \<or> (\<exists>tf. LookupToTracking env (FromRos env (stamp (header imu)))
                  (CheckNoLeadingSlash (frame_id (header imu))) = Some tf
                \<and> \<not> norm3 (Rigid3_translation env tf) < 1 / 100000)"
  then consider
      "linear_acceleration_covariance imu ! 0 = - 1 \<or> angular_velocity_covariance imu ! 0 = - 1"
    | tf where "LookupToTracking env (FromRos env (stamp (header imu)))
                  (CheckNoLeadingSlash (frame_id (header imu))) = Some tf"
        and "\<not> norm3 (Rigid3_translation env tf) < 1 / 100000"
    by blast
  then show "HandleImuMessage env st imu_id imu = ([], Inl CheckFailed)"
  proof cases
    case 1
    then show ?thesis by (rule HandleImuMessage_covariance)
  next
    case 2
    then show ?thesis by (rule HandleImuMessage_not_colocated)
  qed
qed


theorem lookup_spec_witness:
  "HandleOdometryMessage example_env example_bridge ''odom0'' example_odometry =
     ([(''odom0'', Odometry_data (OdometryData 50000000 (3, 5, 6)))], Inr example_bridge)
   \<and> HandleOdometryMessage example_env example_bridge ''odom0'' example_odometry_unknown =
     ([], Inr example_bridge)
   \<and> HandleImuMessage example_env example_bridge ''imu0'' example_imu =
     ([(''imu0'', Imu_data (ImuData 50000000 (0, 0, 10) (0, 0, 1)))], Inr example_bridge)
   \<and> HandleImuMessage example_env example_bridge ''imu0'' example_imu_unknown =
     ([], Inr example_bridge)
   \<and> HandleImuMessage example_env example_bridge ''imu0'' example_imu_gyro =
     ([], Inl CheckFailed)"
proof -
  note found = lookup_spec [where env = example_env and st = example_bridge
      and odom = example_odometry and odom_id = "''odom0''"
      and imu = example_imu and imu_id = "''imu0''"]
  note unknown = lookup_spec [where env = example_env and st = example_bridge
      and odom = example_odometry_unknown and odom_id = "''odom0''"
      and imu = example_imu_unknown and imu_id = "''imu0''"]
  note gyro = lookup_spec [where env = example_env and st = example_bridge
      and odom = example_odometry and odom_id = "''odom0''"
      and imu = example_imu_gyro and imu_id = "''imu0''"]
  have h1: "LookupToTracking example_env (FromRos example_env (stamp (header example_odometry)))
       (CheckNoLeadingSlash (child_frame_id example_odometry)) = Some (1, 0, 0)"
    by (simp add: example_odometry_def CheckNoLeadingSlash_def)
  have h2: "LookupToTracking example_env
       (FromRos example_env (stamp (header example_odometry_unknown)))
       (CheckNoLeadingSlash (child_frame_id example_odometry_unknown)) = None"
    by (simp add: example_odometry_unknown_def example_odometry_def CheckNoLeadingSlash_def)
  have h3: "linear_acceleration_covariance example_imu ! 0 \<noteq> - 1
          \<and> angular_velocity_covariance example_imu ! 0 \<noteq> - 1
          \<and> LookupToTracking example_env (FromRos example_env (stamp (header example_imu)))
              (CheckNoLeadingSlash (frame_id (header example_imu))) = Some (0, 0, 0)
          \<and> norm3 (Rigid3_translation example_env (0, 0, 0)) < 1 / 100000"
    by (simp add: example_imu_def CheckNoLeadingSlash_def)
  have h4: "linear_acceleration_covariance example_imu_unknown ! 0 \<noteq> - 1
        \<and> angular_velocity_covariance example_imu_unknown ! 0 \<noteq> - 1
        \<and> LookupToTracking example_env
            (FromRos example_env (stamp (header example_imu_unknown)))
            (CheckNoLeadingSlash (frame_id (header example_imu_unknown))) = None"
    by (simp add: example_imu_unknown_def example_imu_def CheckNoLeadingSlash_def)
  have h5: "linear_acceleration_covariance example_imu_gyro ! 0 = - 1
        \<or> angular_velocity_covariance example_imu_gyro ! 0 = - 1
        \<or> (\<exists>tf. LookupToTracking example_env
                  (FromRos example_env (stamp (header example_imu_gyro)))
                  (CheckNoLeadingSlash (frame_id (header example_imu_gyro))) = Some tf
                \<and> \<not> norm3 (Rigid3_translation example_env tf) < 1 / 100000)"
    using example_imu_gyro_lookup by (simp add: norm3_gyro)
  have c1: "HandleOdometryMessage example_env example_bridge ''odom0'' example_odometry =
     ([(''odom0'', Odometry_data (OdometryData 50000000 (3, 5, 6)))], Inr example_bridge)"
    using found [THEN conjunct2, THEN conjunct1, rule_format, OF h1]
    by (simp add: example_odometry_def)
  have c2: "HandleOdometryMessage example_env example_bridge ''odom0''
       example_odometry_unknown = ([], Inr example_bridge)"
    using unknown [THEN conjunct1, rule_format, OF h2] .
  have c3: "HandleImuMessage example_env example_bridge ''imu0'' example_imu =
     ([(''imu0'', Imu_data (ImuData 50000000 (0, 0, 10) (0, 0, 1)))], Inr example_bridge)"
    using found [THEN conjunct2, THEN conjunct2, THEN conjunct2, THEN conjunct1,
        rule_format, OF h3]
    by (simp add: example_imu_def)
  have c4: "HandleImuMessage example_env example_bridge ''imu0'' example_imu_unknown =
     ([], Inr example_bridge)"
    using unknown [THEN conjunct2, THEN conjunct2, THEN conjunct1, rule_format, OF h4] .
  have c5: "HandleImuMessage example_env example_bridge ''imu0'' example_imu_gyro =
     ([], Inl CheckFailed)"
    using gyro [THEN conjunct2, THEN conjunct2, THEN conjunct2, THEN conjunct2,
        rule_format, OF h5] .
  from c1 c2 c3 c4 c5 show ?thesis by (intro conjI)
qed

subsection \<open>Point clouds\<close>






lemma example_env_pcl [simp]:
  "fromROSMsg_Ouster example_env =
     (\<lambda>msg. map (\<lambda>b. \<lparr>point_x = real (unat b), point_y = 0, point_z = 0,
                           ouster_t = 16777216 * ucast b\<rparr>) (data msg))"
  "fromROSMsg_Velodyne example_env =
     (\<lambda>msg. map (\<lambda>b. \<lparr>point_x = real (unat b), point_y = 0, point_z = 0,
                           velodyne_time = real (unat b) / 8\<rparr>) (data msg))"
  "fromROSMsg_Rs example_env =
     (\<lambda>msg. map (\<lambda>b. \<lparr>point_x = real (unat b), point_y = 0, point_z = 0,
                           rs_timestamp = 5 + real (unat b) / 8\<rparr>) (data msg))"
  "fromROSMsg_XYZI example_env =
     (\<lambda>msg. map (\<lambda>b. \<lparr>point_x = real (unat b), point_y = 0, point_z = 0,
                           intensity = 1\<rparr>) (data msg))"
  "isnan_Ouster example_env = (\<lambda>p. False)"
  "isinf_Ouster example_env = (\<lambda>p. point_x p = 255)"
  "isnan_Velodyne example_env = (\<lambda>p. False)"
  "isinf_Velodyne example_env = (\<lambda>p. point_x p = 255)"
  "isnan_Rs example_env = (\<lambda>p. False)"
  "isinf_Rs example_env = (\<lambda>p. point_x p = 255)"
  "isnan_XYZI example_env = (\<lambda>p. False)"
  "isinf_XYZI example_env = (\<lambda>p. point_x p = 255)"
  by (simp_all add: example_env_def)


subsection \<open>The loop over the subdivisions\<close>

text \<open>
  What one pass through the loop body can do: leave by an error, skip the subdivision,
  or accept it, which records its time and hands its re-based points on.
\<close>

lemma HandleLaserScan_body_cases:
  fixes env :: "('tf, 'q) collaborators"
  assumes "HandleLaserScan_body env st sensor_id t frame pts i = (out, r)"
  obtains (error) e where "out = []" "r = Inl e"
    | (skip) "out = []" "r = Inr st"
    | (accept) sub where
        "sub = subdivision_of pts i (num_subdivisions_per_laser_scan st)"
        "sub \<noteq> []"
        "\<forall>p. sensor_to_previous_subdivision_time st sensor_id = Some p \<longrightarrow>
             p < t + FromSeconds env (v3 (last sub))"
        "v3 (last (rebase env (v3 (last sub)) sub)) = 0"
        "HandleRangefinder env
           (st\<lparr>sensor_to_previous_subdivision_time :=
                 (sensor_to_previous_subdivision_time st)
                   (sensor_id \<mapsto> t + FromSeconds env (v3 (last sub)))\<rparr>)
           sensor_id (t + FromSeconds env (v3 (last sub))) frame
           (rebase env (v3 (last sub)) sub) = (out, r)"
proof -
  let ?k = "num_subdivisions_per_laser_scan st"
  let ?s = "start_index (length pts) i ?k"
  let ?e = "end_index (length pts) i ?k"
  let ?sub = "subdivision_of pts i ?k"
  let ?time = "t + FromSeconds env (v3 (last ?sub))"
  show thesis
  proof (cases "size_t_of_int ?k = 0 \<or> ?e < ?s \<or> length pts < ?e")
    case True
    with assms have "out = []" "r = Inl UndefinedBehavior"
      by (auto simp: HandleLaserScan_body_def Let_def split: if_splits)
    then show thesis by (rule error)
  next
    case valid: False
    show thesis
    proof (cases "?s = ?e")
      case True
      with valid assms have "out = []" "r = Inr st"
        by (auto simp: HandleLaserScan_body_def Let_def)
      then show thesis by (rule skip)
    next
      case nonempty: False
      with valid have ne: "?sub \<noteq> []"
        by (auto simp: subdivision_of_def)
      show thesis
      proof (cases "case sensor_to_previous_subdivision_time st sensor_id of
                      None \<Rightarrow> False | Some p \<Rightarrow> p \<ge> ?time")
        case True
        with valid nonempty assms have "out = []" "r = Inr st"
          by (auto simp: HandleLaserScan_body_def Let_def)
        then show thesis by (rule skip)
      next
        case fresh: False
        then have before: "\<forall>p. sensor_to_previous_subdivision_time st sensor_id = Some p \<longrightarrow>
             p < ?time"
          by (auto split: option.splits)
        show thesis
        proof (cases "v3 (last (rebase env (v3 (last ?sub)) ?sub)) = 0")
          case False
          with valid nonempty fresh assms have "out = []" "r = Inl CheckFailed"
            by (auto simp: HandleLaserScan_body_def Let_def)
          then show thesis by (rule error)
        next
          case True
          with valid nonempty fresh assms
          have "HandleRangefinder env
             (st\<lparr>sensor_to_previous_subdivision_time :=
                   (sensor_to_previous_subdivision_time st) (sensor_id \<mapsto> ?time)\<rparr>)
             sensor_id ?time frame (rebase env (v3 (last ?sub)) ?sub) = (out, r)"
            by (auto simp: HandleLaserScan_body_def Let_def)
          with ne before True show thesis
            by (intro accept [of ?sub]) simp_all
        qed
      qed
    qed
  qed
qed


text \<open>
  A property of the state before, the records forwarded and the result holds of the
  whole loop when it holds of every pass through the body and of a loop that has
  stopped, and is kept when one run follows another.
\<close>

lemma HandleLaserScan_loop_rule:
  assumes "\<And>st. P st [] (Inr st)"
    and "\<And>st. P st [] (Inl UndefinedBehavior)"
    and "\<And>st i out r.
           HandleLaserScan_body env st sensor_id t frame pts i = (out, r) \<Longrightarrow> P st out r"
    and "\<And>st out st' out' r. P st out (Inr st') \<Longrightarrow> P st' out' r \<Longrightarrow> P st (out @ out') r"
  shows "P st (fst (HandleLaserScan_loop env st sensor_id t frame pts i))
           (snd (HandleLaserScan_loop env st sensor_id t frame pts i))"
  using assms
proof (induction env st sensor_id t frame pts i rule: HandleLaserScan_loop.induct)
  case (1 env st sensor_id t frame pts i)
  note stop = "1.prems"(1) and ub = "1.prems"(2) and step = "1.prems"(3)
    and comp = "1.prems"(4)
  show ?case
  proof (cases "i = num_subdivisions_per_laser_scan st")
    case True
    then show ?thesis
      by (simp add: HandleLaserScan_loop.simps stop)
  next
    case running: False
    show ?thesis
    proof (cases "INT_MAX \<le> i")
      case True
      with running show ?thesis
        by (simp add: HandleLaserScan_loop.simps ub)
    next
      case False
      obtain out r where b: "HandleLaserScan_body env st sensor_id t frame pts i = (out, r)"
        by (cases "HandleLaserScan_body env st sensor_id t frame pts i")
      show ?thesis
      proof (cases r)
        case (Inl e)
        with running False b have
          "HandleLaserScan_loop env st sensor_id t frame pts i = (out, Inl e)"
          by (simp add: HandleLaserScan_loop.simps)
        with step [OF b] Inl show ?thesis by simp
      next
        case (Inr st')
        let ?rest = "HandleLaserScan_loop env st' sensor_id t frame pts (i + 1)"
        from running False b Inr have
          eq: "HandleLaserScan_loop env st sensor_id t frame pts i =
                 (out @ fst ?rest, snd ?rest)"
          by (simp add: HandleLaserScan_loop.simps [of env st] split: prod.splits)
        have "P st' (fst ?rest) (snd ?rest)"
          using running False b Inr stop ub step comp
          by (intro "1.IH" [of out r st']) simp_all
        with step [OF b] Inr have "P st (out @ fst ?rest) (snd ?rest)"
          by (intro comp [of st out st']) simp_all
        with eq show ?thesis by simp
      qed
    qed
  qed
qed

lemma in_order_rule:
  assumes "\<And>st. P st [] (Inr st)"
    and "\<And>st a out r. step st a = (out, r) \<Longrightarrow> P st out r"
    and "\<And>st out st' out' r. P st out (Inr st') \<Longrightarrow> P st' out' r \<Longrightarrow> P st (out @ out') r"
  shows "P st (fst (in_order step st as)) (snd (in_order step st as))"
proof (induction as arbitrary: st)
  case Nil
  show ?case by (simp add: assms(1))
next
  case (Cons a as)
  obtain out r where b: "step st a = (out, r)"
    by (cases "step st a")
  show ?case
  proof (cases r)
    case (Inl e)
    with b assms(2) [OF b] show ?thesis by simp
  next
    case (Inr st')
    with b have "in_order step st (a # as) =
        (out @ fst (in_order step st' as), snd (in_order step st' as))"
      by (simp split: prod.splits)
    moreover have "P st (out @ fst (in_order step st' as)) (snd (in_order step st' as))"
      using assms(2) [OF b] Inr Cons.IH [of st'] by (intro assms(3) [of st out st']) simp_all
    ultimately show ?thesis by simp
  qed
qed


subsection \<open>The subdivisions cover the scan\<close>






lemma HandleLaserScan_body_num:
  assumes "HandleLaserScan_body env st sensor_id t frame pts i = (out, Inr st')"
  shows "num_subdivisions_per_laser_scan st' = num_subdivisions_per_laser_scan st
       \<and> ecef_to_local_frame st' = ecef_to_local_frame st"
  using assms
proof (cases rule: HandleLaserScan_body_cases)
  case (error e)
  then show ?thesis by simp
next
  case skip
  then show ?thesis by simp
next
  case (accept sub)
  from accept(5) show ?thesis
    by (auto simp: HandleRangefinder_def split: option.splits)
qed

lemma HandleLaserScan_loop_in_order:
  assumes "0 \<le> i" "i \<le> num_subdivisions_per_laser_scan st"
    "num_subdivisions_per_laser_scan st \<le> INT_MAX"
  shows "HandleLaserScan_loop env st sensor_id t frame pts i =
         in_order (\<lambda>s j. HandleLaserScan_body env s sensor_id t frame pts j) st
           (map int [nat i..<nat (num_subdivisions_per_laser_scan st)])"
  using assms
proof (induction env st sensor_id t frame pts i rule: HandleLaserScan_loop.induct)
  case (1 env st sensor_id t frame pts i)
  let ?k = "num_subdivisions_per_laser_scan st"
  show ?case
  proof (cases "i = ?k")
    case True
    then show ?thesis
      by (simp add: HandleLaserScan_loop.simps)
  next
    case running: False
    with "1.prems" have less: "i < ?k" "\<not> INT_MAX \<le> i"
      by simp_all
    with "1.prems" have upt: "map int [nat i..<nat ?k] = i # map int [nat (i + 1)..<nat ?k]"
      by (simp add: upt_conv_Cons nat_add_distrib)
    obtain out r where b: "HandleLaserScan_body env st sensor_id t frame pts i = (out, r)"
      by (cases "HandleLaserScan_body env st sensor_id t frame pts i")
    show ?thesis
    proof (cases r)
      case (Inl e)
      with running less b upt show ?thesis
        by (simp add: HandleLaserScan_loop.simps [of env st])
    next
      case (Inr st')
      with b have num: "num_subdivisions_per_laser_scan st' = ?k"
        by (simp add: HandleLaserScan_body_num)
      have "HandleLaserScan_loop env st' sensor_id t frame pts (i + 1) =
            in_order (\<lambda>s j. HandleLaserScan_body env s sensor_id t frame pts j) st'
              (map int [nat (i + 1)..<nat (num_subdivisions_per_laser_scan st')])"
        using running less b Inr num "1.prems"
        by (intro "1.IH" [of out r st']) simp_all
      with running less b Inr upt num show ?thesis
        by (simp add: HandleLaserScan_loop.simps [of env st])
    qed
  qed
qed






subsection \<open>Re-based subdivisions\<close>

lemma HandleLaserScan_body_forwarded:
  assumes "HandleLaserScan_body env st sensor_id t frame pts i = (out, r)"
    and "rec \<in> set out"
  shows "\<exists>tf. let sub = subdivision_of pts i (num_subdivisions_per_laser_scan st) in
           sub \<noteq> []
         \<and> LookupToTracking env (t + FromSeconds env (v3 (last sub)))
             (CheckNoLeadingSlash frame) = Some tf
         \<and> v3 (last (rebase env (v3 (last sub)) sub)) = 0
         \<and> rec = (sensor_id, TimedPointCloud_data (TimedPointCloudData
                     (t + FromSeconds env (v3 (last sub)))
                     (Vector3_cast_float env (Rigid3_translation env tf))
                     (TransformTimedPointCloud env (rebase env (v3 (last sub)) sub)
                        (Rigid3_cast_float env tf))))"
  using assms(1)
proof (cases rule: HandleLaserScan_body_cases)
  case (error e)
  with assms(2) show ?thesis by simp
next
  case skip
  with assms(2) show ?thesis by simp
next
  case (accept sub)
  let ?time = "t + FromSeconds env (v3 (last sub))"
  let ?st = "st\<lparr>sensor_to_previous_subdivision_time :=
                 (sensor_to_previous_subdivision_time st) (sensor_id \<mapsto> ?time)\<rparr>"
  show ?thesis
  proof (cases "LookupToTracking env ?time (CheckNoLeadingSlash frame)")
    case None
    with accept(5) have "out = []"
      by (simp add: HandleRangefinder_def)
    with assms(2) show ?thesis by simp
  next
    case (Some tf)
    with accept(5) have "out = [(sensor_id, TimedPointCloud_data (TimedPointCloudData ?time
                  (Vector3_cast_float env (Rigid3_translation env tf))
                  (TransformTimedPointCloud env (rebase env (v3 (last sub)) sub)
                     (Rigid3_cast_float env tf))))]"
      by (simp add: HandleRangefinder_def)
    with assms(2) have "rec = (sensor_id, TimedPointCloud_data (TimedPointCloudData ?time
                  (Vector3_cast_float env (Rigid3_translation env tf))
                  (TransformTimedPointCloud env (rebase env (v3 (last sub)) sub)
                     (Rigid3_cast_float env tf))))"
      by simp
    with accept(2,4) Some show ?thesis
      unfolding accept(1) [symmetric] Let_def by (intro exI [of _ tf] conjI)
  qed
qed

lemma HandleLaserScan_loop_forwarded:
  fixes env :: "('tf, 'q) collaborators"
  assumes "rec \<in> set (fst (HandleLaserScan_loop env st sensor_id t frame pts i0))"
  shows "\<exists>i tf. let sub = subdivision_of pts i (num_subdivisions_per_laser_scan st) in
           sub \<noteq> []
         \<and> LookupToTracking env (t + FromSeconds env (v3 (last sub)))
             (CheckNoLeadingSlash frame) = Some tf
         \<and> v3 (last (rebase env (v3 (last sub)) sub)) = 0
         \<and> rec = (sensor_id, TimedPointCloud_data (TimedPointCloudData
                     (t + FromSeconds env (v3 (last sub)))
                     (Vector3_cast_float env (Rigid3_translation env tf))
                     (TransformTimedPointCloud env (rebase env (v3 (last sub)) sub)
                        (Rigid3_cast_float env tf))))"
proof -
  define k where "k = num_subdivisions_per_laser_scan st"
  define shape where "shape x \<longleftrightarrow>
    (\<exists>i tf. let sub = subdivision_of pts i k in
           sub \<noteq> []
         \<and> LookupToTracking env (t + FromSeconds env (v3 (last sub)))
             (CheckNoLeadingSlash frame) = Some tf
         \<and> v3 (last (rebase env (v3 (last sub)) sub)) = 0
         \<and> x = (sensor_id, TimedPointCloud_data (TimedPointCloudData
                     (t + FromSeconds env (v3 (last sub)))
                     (Vector3_cast_float env (Rigid3_translation env tf))
                     (TransformTimedPointCloud env (rebase env (v3 (last sub)) sub)
                        (Rigid3_cast_float env tf)))))" for x :: "'tf AddSensorData"
  define P where "P s out r \<longleftrightarrow>
    (num_subdivisions_per_laser_scan s = k \<longrightarrow>
       (\<forall>x \<in> set out. shape x)
       \<and> (\<forall>s'. r = Inr s' \<longrightarrow> num_subdivisions_per_laser_scan s' = k))"
    for s :: "'tf SensorBridge" and out :: "'tf AddSensorData list"
      and r :: "error + 'tf SensorBridge"
  have stop: "P s [] (Inr s)" for s
    by (simp add: P_def)
  have ub: "P s [] (Inl UndefinedBehavior)" for s
    by (simp add: P_def)
  have step: "P s out r"
    if b: "HandleLaserScan_body env s sensor_id t frame pts i = (out, r)" for s i out r
    unfolding P_def
  proof (intro impI conjI ballI allI)
    fix x assume nk: "num_subdivisions_per_laser_scan s = k" and "x \<in> set out"
    from HandleLaserScan_body_forwarded [OF b this(2)]
    have "\<exists>tf. let sub = subdivision_of pts i k in
           sub \<noteq> []
         \<and> LookupToTracking env (t + FromSeconds env (v3 (last sub)))
             (CheckNoLeadingSlash frame) = Some tf
         \<and> v3 (last (rebase env (v3 (last sub)) sub)) = 0
         \<and> x = (sensor_id, TimedPointCloud_data (TimedPointCloudData
                     (t + FromSeconds env (v3 (last sub)))
                     (Vector3_cast_float env (Rigid3_translation env tf))
                     (TransformTimedPointCloud env (rebase env (v3 (last sub)) sub)
                        (Rigid3_cast_float env tf))))"
      unfolding nk .
    then show "shape x"
      unfolding shape_def by (rule exI [of _ i])
  next
    fix s' assume "num_subdivisions_per_laser_scan s = k" "r = Inr s'"
    with b show "num_subdivisions_per_laser_scan s' = k"
      by (simp add: HandleLaserScan_body_num)
  qed
  have comp: "P s (out @ out') r" if 1: "P s out (Inr s')" and 2: "P s' out' r"
    for s out s' out' r
    unfolding P_def
  proof (intro impI conjI ballI allI)
    assume nk: "num_subdivisions_per_laser_scan s = k"
    with 1 have o: "\<forall>x \<in> set out. shape x" and nk': "num_subdivisions_per_laser_scan s' = k"
      unfolding P_def by simp_all
    from 2 nk' have o': "\<forall>x \<in> set out'. shape x"
      and r: "\<forall>s''. r = Inr s'' \<longrightarrow> num_subdivisions_per_laser_scan s'' = k"
      unfolding P_def by simp_all
    {
      fix x assume "x \<in> set (out @ out')"
      then have "x \<in> set out \<or> x \<in> set out'" by simp
      with o o' show "shape x" by blast
    next
      fix s'' assume "r = Inr s''"
      with r show "num_subdivisions_per_laser_scan s'' = k" by simp
    }
  qed
  have "P st (fst (HandleLaserScan_loop env st sensor_id t frame pts i0))
          (snd (HandleLaserScan_loop env st sensor_id t frame pts i0))"
    by (rule HandleLaserScan_loop_rule [of P, OF stop ub step comp])
  then have "\<forall>x \<in> set (fst (HandleLaserScan_loop env st sensor_id t frame pts i0)). shape x"
    unfolding P_def k_def by simp
  from this assms have "shape rec" by (rule bspec)
  then show ?thesis
    unfolding shape_def k_def .
qed

text \<open>
  When the rounding to \<open>float\<close> and to \<open>double\<close> leaves \<open>0\<close> as it is, as it does
  in IEEE 754, the time component of the last re-based point is \<open>0\<close>.
\<close>

lemma rebase_last:
  assumes "to_float env 0 = 0" and "to_double env 0 = 0" and "subdivision \<noteq> []"
  shows "v3 (last (rebase env (v3 (last subdivision)) subdivision)) = 0"
  using assms by (simp add: rebase_def last_map)

text \<open>
  C1. Every record that \<open>HandleLaserScan\<close> forwards comes from a subdivision that is
  not empty: its points are the points of the subdivision with the relative time of the
  last point of the subdivision taken off every time component and then transformed,
  the last of the re-based points has the time component \<open>0\<close>, and its time stamp is
  the time of the scan plus the duration \<open>FromSeconds\<close> makes of that relative time.
  The subtraction is the one of the code: the difference of the two times as a
  \<open>double\<close>, stored as a \<open>float\<close>. That the last time component is \<open>0\<close> is what
  \<open>CHECK_EQ\<close> tests before the subdivision is handed on.
\<close>

theorem rebase_spec:
  "\<forall>rec \<in> set (fst (HandleLaserScan env st sensor_id t frame pc)).
     \<exists>i tf. let sub = subdivision_of (points pc) i (num_subdivisions_per_laser_scan st);
                rebased =
                  map (\<lambda>point.
                         point\<lparr>v3 := to_float env (to_double env (v3 point - v3 (last sub)))\<rparr>)
                    sub
            in sub \<noteq> []
             \<and> LookupToTracking env (t + FromSeconds env (v3 (last sub)))
                 (CheckNoLeadingSlash frame) = Some tf
             \<and> v3 (last rebased) = 0
             \<and> rec = (sensor_id, TimedPointCloud_data (TimedPointCloudData
                         (t + FromSeconds env (v3 (last sub)))
                         (Vector3_cast_float env (Rigid3_translation env tf))
                         (TransformTimedPointCloud env rebased (Rigid3_cast_float env tf))))"
proof
  fix rec
  assume "rec \<in> set (fst (HandleLaserScan env st sensor_id t frame pc))"
  then have "rec \<in> set (fst (HandleLaserScan_loop env st sensor_id t frame (points pc) 0))"
    by (simp add: HandleLaserScan_def split: if_splits)
  from HandleLaserScan_loop_forwarded [OF this]
  show "\<exists>i tf. let sub = subdivision_of (points pc) i (num_subdivisions_per_laser_scan st);
                rebased =
                  map (\<lambda>point.
                         point\<lparr>v3 := to_float env (to_double env (v3 point - v3 (last sub)))\<rparr>)
                    sub
            in sub \<noteq> []
             \<and> LookupToTracking env (t + FromSeconds env (v3 (last sub)))
                 (CheckNoLeadingSlash frame) = Some tf
             \<and> v3 (last rebased) = 0
             \<and> rec = (sensor_id, TimedPointCloud_data (TimedPointCloudData
                         (t + FromSeconds env (v3 (last sub)))
                         (Vector3_cast_float env (Rigid3_translation env tf))
                         (TransformTimedPointCloud env rebased (Rigid3_cast_float env tf))))"
    by (simp add: Let_def rebase_def)
qed


lemma example_scan_body0:
  "HandleLaserScan_body example_env example_bridge ''scan'' 50000000 ''/laser''
     (points example_scan) 0 =
     ([(''scan'', TimedPointCloud_data (TimedPointCloudData 45000000 (1, 0, 0)
          [\<lparr>v0 = 2, v1 = 0, v2 = 0, v3 = - 1 / 4\<rparr>,
           \<lparr>v0 = 3, v1 = 0, v2 = 0, v3 = 0\<rparr>]))],
      Inr (example_bridge\<lparr>sensor_to_previous_subdivision_time := [''scan'' \<mapsto> 45000000]\<rparr>))"
  by (simp add: HandleLaserScan_body_def start_index_def end_index_def size_t_of_int_def
      subdivision_of_def rebase_def HandleRangefinder_def CheckNoLeadingSlash_def
      example_scan_def example_bridge_def)

lemma example_scan_body1:
  "HandleLaserScan_body example_env
     (example_bridge\<lparr>sensor_to_previous_subdivision_time := [''scan'' \<mapsto> 45000000]\<rparr>)
     ''scan'' 50000000 ''/laser'' (points example_scan) 1 =
     ([(''scan'', TimedPointCloud_data (TimedPointCloudData 50000000 (1, 0, 0)
          [\<lparr>v0 = 4, v1 = 0, v2 = 0, v3 = - 1 / 4\<rparr>,
           \<lparr>v0 = 5, v1 = 0, v2 = 0, v3 = 0\<rparr>]))],
      Inr (example_bridge\<lparr>sensor_to_previous_subdivision_time := [''scan'' \<mapsto> 50000000]\<rparr>))"
  by (simp add: HandleLaserScan_body_def start_index_def end_index_def size_t_of_int_def
      subdivision_of_def rebase_def HandleRangefinder_def CheckNoLeadingSlash_def
      example_scan_def example_bridge_def)

lemma example_scan_run:
  "HandleLaserScan example_env example_bridge ''scan'' 50000000 ''/laser'' example_scan =
     ([(''scan'', TimedPointCloud_data (TimedPointCloudData 45000000 (1, 0, 0)
          [\<lparr>v0 = 2, v1 = 0, v2 = 0, v3 = - 1 / 4\<rparr>,
           \<lparr>v0 = 3, v1 = 0, v2 = 0, v3 = 0\<rparr>])),
       (''scan'', TimedPointCloud_data (TimedPointCloudData 50000000 (1, 0, 0)
          [\<lparr>v0 = 4, v1 = 0, v2 = 0, v3 = - 1 / 4\<rparr>,
           \<lparr>v0 = 5, v1 = 0, v2 = 0, v3 = 0\<rparr>]))],
      Inr (example_bridge\<lparr>sensor_to_previous_subdivision_time := [''scan'' \<mapsto> 50000000]\<rparr>))"
proof -
  have k: "num_subdivisions_per_laser_scan example_bridge = 2"
    by (simp add: example_bridge_def)
  have "HandleLaserScan example_env example_bridge ''scan'' 50000000 ''/laser'' example_scan =
        HandleLaserScan_loop example_env example_bridge ''scan'' 50000000 ''/laser''
          (points example_scan) 0"
    by (simp add: HandleLaserScan_def example_scan_def)
  also have "\<dots> = in_order
      (\<lambda>s j. HandleLaserScan_body example_env s ''scan'' 50000000 ''/laser''
               (points example_scan) j)
      example_bridge [0, 1]"
    using HandleLaserScan_loop_in_order [of 0 example_bridge example_env "''scan''" 50000000
        "''/laser''" "points example_scan"]
    by (simp add: k INT_MAX_def upt_rec)
  also have "\<dots> =
     ([(''scan'', TimedPointCloud_data (TimedPointCloudData 45000000 (1, 0, 0)
          [\<lparr>v0 = 2, v1 = 0, v2 = 0, v3 = - 1 / 4\<rparr>,
           \<lparr>v0 = 3, v1 = 0, v2 = 0, v3 = 0\<rparr>])),
       (''scan'', TimedPointCloud_data (TimedPointCloudData 50000000 (1, 0, 0)
          [\<lparr>v0 = 4, v1 = 0, v2 = 0, v3 = - 1 / 4\<rparr>,
           \<lparr>v0 = 5, v1 = 0, v2 = 0, v3 = 0\<rparr>]))],
      Inr (example_bridge\<lparr>sensor_to_previous_subdivision_time := [''scan'' \<mapsto> 50000000]\<rparr>))"
    by (simp add: example_scan_body0 example_scan_body1)
  finally show ?thesis .
qed

theorem rebase_spec_witness:
  "((''scan'', TimedPointCloud_data (TimedPointCloudData 45000000 (1, 0, 0)
        [\<lparr>v0 = 2, v1 = 0, v2 = 0, v3 = - 1 / 4\<rparr>,
         \<lparr>v0 = 3, v1 = 0, v2 = 0, v3 = 0\<rparr>])) :: Vector3 AddSensorData)
     \<in> set (fst (HandleLaserScan example_env example_bridge ''scan'' 50000000 ''/laser''
                   example_scan))
   \<and> (\<exists>i tf. let sub = subdivision_of (points example_scan) i
                          (num_subdivisions_per_laser_scan example_bridge);
                rebased =
                  map (\<lambda>point.
                         point\<lparr>v3 := to_float example_env
                                       (to_double example_env (v3 point - v3 (last sub)))\<rparr>)
                    sub
            in sub \<noteq> []
             \<and> LookupToTracking example_env (50000000 + FromSeconds example_env (v3 (last sub)))
                 (CheckNoLeadingSlash ''/laser'') = Some tf
             \<and> v3 (last rebased) = 0
             \<and> ((''scan'', TimedPointCloud_data (TimedPointCloudData 45000000 (1, 0, 0)
                    [\<lparr>v0 = 2, v1 = 0, v2 = 0, v3 = - 1 / 4\<rparr>,
                     \<lparr>v0 = 3, v1 = 0, v2 = 0, v3 = 0\<rparr>])) :: Vector3 AddSensorData)
                 = (''scan'', TimedPointCloud_data (TimedPointCloudData
                         (50000000 + FromSeconds example_env (v3 (last sub)))
                         (Vector3_cast_float example_env (Rigid3_translation example_env tf))
                         (TransformTimedPointCloud example_env rebased
                            (Rigid3_cast_float example_env tf)))))"
proof -
  have mem: "((''scan'', TimedPointCloud_data (TimedPointCloudData 45000000 (1, 0, 0)
        [\<lparr>v0 = 2, v1 = 0, v2 = 0, v3 = - 1 / 4\<rparr>,
         \<lparr>v0 = 3, v1 = 0, v2 = 0, v3 = 0\<rparr>])) :: Vector3 AddSensorData)
     \<in> set (fst (HandleLaserScan example_env example_bridge ''scan'' 50000000 ''/laser''
                   example_scan))"
    by (simp add: example_scan_run)
  note shape = bspec [OF rebase_spec mem]
  from mem shape show ?thesis by (rule conjI)
qed

subsection \<open>Subdivisions out of order\<close>

lemma times_for_simps [simp]:
  "times_for x [] = []"
  "times_for x (out @ out') = times_for x out @ times_for x out'"
  "times_for x [(y, d)] = (if y = x then [time_of d] else [])"
  by (simp_all add: times_for_def)

lemma times_increase_stop: "times_increase x st [] (Inr st)"
  by (simp add: times_increase_def)

lemma times_increase_error: "times_increase x st [] (Inl e)"
  by (simp add: times_increase_def)

lemma times_increase_append:
  assumes "times_increase x st out (Inr st')" and "times_increase x st' out' r"
  shows "times_increase x st (out @ out') r"
proof -
  let ?prev = sensor_to_previous_subdivision_time
  from assms(1) have s1: "sorted_wrt (<) (times_for x out)"
    and lo1: "\<And>p u. ?prev st x = Some p \<Longrightarrow> u \<in> set (times_for x out) \<Longrightarrow> p < u"
    and hi1: "\<And>u. u \<in> set (times_for x out) \<Longrightarrow> \<exists>p'. ?prev st' x = Some p' \<and> u \<le> p'"
    and up1: "\<And>p. ?prev st x = Some p \<Longrightarrow> \<exists>p'. ?prev st' x = Some p' \<and> p \<le> p'"
    unfolding times_increase_def by blast+
  from assms(2) have s2: "sorted_wrt (<) (times_for x out')"
    and lo2: "\<And>p u. ?prev st' x = Some p \<Longrightarrow> u \<in> set (times_for x out') \<Longrightarrow> p < u"
    and hi2: "\<And>st'' u. r = Inr st'' \<Longrightarrow> u \<in> set (times_for x out') \<Longrightarrow>
                \<exists>p'. ?prev st'' x = Some p' \<and> u \<le> p'"
    and up2: "\<And>st'' p. r = Inr st'' \<Longrightarrow> ?prev st' x = Some p \<Longrightarrow>
                \<exists>p'. ?prev st'' x = Some p' \<and> p \<le> p'"
    unfolding times_increase_def by blast+
  have cross: "u < u'" if "u \<in> set (times_for x out)" "u' \<in> set (times_for x out')" for u u'
  proof -
    from hi1 [OF that(1)] obtain p' where "?prev st' x = Some p'" "u \<le> p'" by blast
    with lo2 [OF _ that(2)] show ?thesis by fastforce
  qed
  have sorted: "sorted_wrt (<) (times_for x (out @ out'))"
    using s1 s2 cross by (simp add: sorted_wrt_append)
  have lo: "p < u" if "?prev st x = Some p" "u \<in> set (times_for x (out @ out'))" for p u
  proof -
    from that(2) consider "u \<in> set (times_for x out)" | "u \<in> set (times_for x out')"
      by auto
    then show ?thesis
    proof cases
      case 1
      with lo1 that(1) show ?thesis by blast
    next
      case 2
      from up1 [OF that(1)] obtain p' where "?prev st' x = Some p'" "p \<le> p'" by blast
      with lo2 [OF _ 2] show ?thesis by fastforce
    qed
  qed
  have hi: "\<exists>p'. ?prev st'' x = Some p' \<and> u \<le> p'"
    if "r = Inr st''" "u \<in> set (times_for x (out @ out'))" for st'' u
  proof -
    from that(2) consider "u \<in> set (times_for x out)" | "u \<in> set (times_for x out')"
      by auto
    then show ?thesis
    proof cases
      case 1
      from hi1 [OF 1] obtain p' where p': "?prev st' x = Some p'" "u \<le> p'" by blast
      from up2 [OF that(1) p'(1)] obtain p'' where "?prev st'' x = Some p''" "p' \<le> p''"
        by blast
      with p'(2) show ?thesis by fastforce
    next
      case 2
      with hi2 that(1) show ?thesis by blast
    qed
  qed
  have up: "\<exists>p'. ?prev st'' x = Some p' \<and> p \<le> p'"
    if "r = Inr st''" "?prev st x = Some p" for st'' p
  proof -
    from up1 [OF that(2)] obtain p' where p': "?prev st' x = Some p'" "p \<le> p'" by blast
    from up2 [OF that(1) p'(1)] obtain p'' where "?prev st'' x = Some p''" "p' \<le> p''"
      by blast
    with p'(2) show ?thesis by fastforce
  qed
  show ?thesis
    unfolding times_increase_def using sorted lo hi up by blast
qed

lemma times_increase_body:
  assumes "HandleLaserScan_body env st sensor_id t frame pts i = (out, r)"
  shows "times_increase x st out r"
  using assms
proof (cases rule: HandleLaserScan_body_cases)
  case (error e)
  then show ?thesis by (simp add: times_increase_error)
next
  case skip
  then show ?thesis by (simp add: times_increase_stop)
next
  case (accept sub)
  let ?time = "t + FromSeconds env (v3 (last sub))"
  let ?st = "st\<lparr>sensor_to_previous_subdivision_time :=
                 (sensor_to_previous_subdivision_time st) (sensor_id \<mapsto> ?time)\<rparr>"
  from accept(5) have r: "r = Inr ?st"
    by (simp add: HandleRangefinder_def split: option.splits)
  from accept(5) have "out = [] \<or> (\<exists>d. out = [(sensor_id, d)] \<and> time_of d = ?time)"
    by (auto simp: HandleRangefinder_def split: option.splits)
  then have out: "times_for x out = [] \<or> (x = sensor_id \<and> times_for x out = [?time])"
    by (cases "x = sensor_id") auto
  show ?thesis
  proof (cases "x = sensor_id")
    case True
    with out accept(3) show ?thesis
      unfolding times_increase_def r by auto
  next
    case False
    with out show ?thesis
      unfolding times_increase_def r by auto
  qed
qed

lemma times_increase_HandleLaserScan:
  "times_increase x st (fst (HandleLaserScan env st sensor_id t frame pc))
     (snd (HandleLaserScan env st sensor_id t frame pc))"
proof -
  have "times_increase x st (fst (HandleLaserScan_loop env st sensor_id t frame (points pc) 0))
     (snd (HandleLaserScan_loop env st sensor_id t frame (points pc) 0))"
    by (rule HandleLaserScan_loop_rule [of "times_increase x"])
       (simp_all add: times_increase_stop times_increase_error times_increase_body
          times_increase_append [of x])
  then show ?thesis
    by (simp add: HandleLaserScan_def times_increase_stop times_increase_error)
qed

lemma times_increase_HandleLaserScans:
  "times_increase x st (fst (HandleLaserScans env st scans))
     (snd (HandleLaserScans env st scans))"
  unfolding HandleLaserScans_def
proof (rule in_order_rule [of "times_increase x"])
  show "times_increase x s [] (Inr s)" for s
    by (rule times_increase_stop)
  show "times_increase x s out r"
    if "(case a of (sensor_id, t, frame, pc) \<Rightarrow> HandleLaserScan env s sensor_id t frame pc)
          = (out, r)"
    for s a out r
  proof -
    obtain sensor_id t frame pc where a: "a = (sensor_id, t, frame, pc)"
      by (cases a)
    with that times_increase_HandleLaserScan [of x s env sensor_id t frame pc]
    show ?thesis by simp
  qed
  show "times_increase x s (out @ out') r"
    if "times_increase x s out (Inr s')" "times_increase x s' out' r" for s out s' out' r
    using that by (rule times_increase_append)
qed


lemma example_scan_reject0:
  assumes "m ''scan'' = Some p" "T - 5000000 \<le> p"
  shows "HandleLaserScan_body example_env
     (example_bridge\<lparr>sensor_to_previous_subdivision_time := m\<rparr>)
     ''scan'' T ''/laser'' (points example_scan) 0 =
     ([], Inr (example_bridge\<lparr>sensor_to_previous_subdivision_time := m\<rparr>))"
  using assms
  by (simp add: HandleLaserScan_body_def start_index_def end_index_def size_t_of_int_def
      subdivision_of_def example_scan_def example_bridge_def)

lemma example_scan_reject1:
  assumes "m ''scan'' = Some p" "T \<le> p"
  shows "HandleLaserScan_body example_env
     (example_bridge\<lparr>sensor_to_previous_subdivision_time := m\<rparr>)
     ''scan'' T ''/laser'' (points example_scan) 1 =
     ([], Inr (example_bridge\<lparr>sensor_to_previous_subdivision_time := m\<rparr>))"
  using assms
  by (simp add: HandleLaserScan_body_def start_index_def end_index_def size_t_of_int_def
      subdivision_of_def example_scan_def example_bridge_def)

lemma example_scan_loop:
  "HandleLaserScan example_env (example_bridge\<lparr>sensor_to_previous_subdivision_time := m\<rparr>)
     ''scan'' T ''/laser'' example_scan =
   in_order
     (\<lambda>s j. HandleLaserScan_body example_env s ''scan'' T ''/laser'' (points example_scan) j)
     (example_bridge\<lparr>sensor_to_previous_subdivision_time := m\<rparr>) [0, 1]"
proof -
  let ?st = "example_bridge\<lparr>sensor_to_previous_subdivision_time := m\<rparr>"
  have k: "num_subdivisions_per_laser_scan ?st = 2"
    by (simp add: example_bridge_def)
  have "HandleLaserScan example_env ?st ''scan'' T ''/laser'' example_scan =
        HandleLaserScan_loop example_env ?st ''scan'' T ''/laser'' (points example_scan) 0"
    by (simp add: HandleLaserScan_def example_scan_def)
  also have "\<dots> = in_order
      (\<lambda>s j. HandleLaserScan_body example_env s ''scan'' T ''/laser'' (points example_scan) j)
      ?st [0, 1]"
    using HandleLaserScan_loop_in_order [of 0 ?st example_env "''scan''" T
        "''/laser''" "points example_scan"]
    by (simp add: k INT_MAX_def upt_rec)
  finally show ?thesis .
qed

lemma example_scan_rejected:
  assumes "m ''scan'' = Some p" "T \<le> p"
  shows "HandleLaserScan example_env
     (example_bridge\<lparr>sensor_to_previous_subdivision_time := m\<rparr>)
     ''scan'' T ''/laser'' example_scan =
     ([], Inr (example_bridge\<lparr>sensor_to_previous_subdivision_time := m\<rparr>))"
  using assms
  by (simp add: example_scan_loop example_scan_reject0 [of m p] example_scan_reject1 [of m p])

lemma example_scan_late:
  "HandleLaserScan example_env
     (example_bridge\<lparr>sensor_to_previous_subdivision_time := [''scan'' \<mapsto> 45000000]\<rparr>)
     ''scan'' 50000000 ''/laser'' example_scan =
     ([(''scan'', TimedPointCloud_data (TimedPointCloudData 50000000 (1, 0, 0)
          [\<lparr>v0 = 4, v1 = 0, v2 = 0, v3 = - 1 / 4\<rparr>,
           \<lparr>v0 = 5, v1 = 0, v2 = 0, v3 = 0\<rparr>]))],
      Inr (example_bridge\<lparr>sensor_to_previous_subdivision_time := [''scan'' \<mapsto> 50000000]\<rparr>))"
  by (simp add: example_scan_loop example_scan_reject0 [of _ 45000000] example_scan_body1)

text \<open>
  C2. A subdivision whose time stamp is not after the time recorded for its sensor is
  passed over: the loop body forwards nothing and leaves the bridge as it was. So the
  time stamps that a sequence of calls of \<open>HandleLaserScan\<close> forwards for any one
  sensor id increase strictly, and all lie after the time recorded for that sensor at
  the start.
\<close>

theorem out_of_order_spec:
  "(\<forall>previous. sensor_to_previous_subdivision_time st sensor_id = Some previous
        \<and> t + FromSeconds env
                (v3 (last (subdivision_of pts i (num_subdivisions_per_laser_scan st))))
            \<le> previous \<longrightarrow>
      fst (HandleLaserScan_body env st sensor_id t frame pts i) = []
      \<and> (\<forall>st'. snd (HandleLaserScan_body env st sensor_id t frame pts i) = Inr st' \<longrightarrow>
             st' = st))
   \<and> sorted_wrt (<) (times_for x (fst (HandleLaserScans env st scans)))
   \<and> (\<forall>previous u. sensor_to_previous_subdivision_time st x = Some previous
          \<and> u \<in> set (times_for x (fst (HandleLaserScans env st scans))) \<longrightarrow>
        previous < u)"
proof (intro conjI allI impI)
  fix previous
  assume a: "sensor_to_previous_subdivision_time st sensor_id = Some previous
        \<and> t + FromSeconds env
                (v3 (last (subdivision_of pts i (num_subdivisions_per_laser_scan st))))
            \<le> previous"
  obtain out r where b: "HandleLaserScan_body env st sensor_id t frame pts i = (out, r)"
    by (cases "HandleLaserScan_body env st sensor_id t frame pts i")
  then have "out = [] \<and> (\<forall>st'. r = Inr st' \<longrightarrow> st' = st)"
  proof (cases rule: HandleLaserScan_body_cases)
    case (error e)
    then show ?thesis by simp
  next
    case skip
    then show ?thesis by simp
  next
    case (accept sub)
    with a show ?thesis by fastforce
  qed
  with b show "fst (HandleLaserScan_body env st sensor_id t frame pts i) = []"
    and "\<And>st'. snd (HandleLaserScan_body env st sensor_id t frame pts i) = Inr st' \<Longrightarrow>
             st' = st"
    by simp_all
next
  note inc = times_increase_HandleLaserScans [of x st env scans]
  from inc show "sorted_wrt (<) (times_for x (fst (HandleLaserScans env st scans)))"
    unfolding times_increase_def by (rule conjunct1)
  fix previous u
  assume "sensor_to_previous_subdivision_time st x = Some previous
          \<and> u \<in> set (times_for x (fst (HandleLaserScans env st scans)))"
  with inc show "previous < u"
    unfolding times_increase_def by blast
qed


theorem out_of_order_spec_witness:
  "sensor_to_previous_subdivision_time
       (example_bridge\<lparr>sensor_to_previous_subdivision_time := [''scan'' \<mapsto> 50000000]\<rparr>)
       ''scan'' = Some 50000000
   \<and> 50000000 + FromSeconds example_env
         (v3 (last (subdivision_of (points example_scan) 0
            (num_subdivisions_per_laser_scan
               (example_bridge\<lparr>sensor_to_previous_subdivision_time :=
                                  [''scan'' \<mapsto> 50000000]\<rparr>)))))
       \<le> 50000000
   \<and> fst (HandleLaserScan_body example_env
            (example_bridge\<lparr>sensor_to_previous_subdivision_time := [''scan'' \<mapsto> 50000000]\<rparr>)
            ''scan'' 50000000 ''/laser'' (points example_scan) 0) = []
   \<and> times_for ''scan'' (fst (HandleLaserScans example_env example_bridge
         [(''scan'', 50000000, ''/laser'', example_scan),
          (''scan'', 50000000, ''/laser'', example_scan)])) = [45000000, 50000000]
   \<and> sorted_wrt (<) (times_for ''scan'' (fst (HandleLaserScans example_env example_bridge
         [(''scan'', 50000000, ''/laser'', example_scan),
          (''scan'', 50000000, ''/laser'', example_scan)])))
   \<and> sensor_to_previous_subdivision_time
       (example_bridge\<lparr>sensor_to_previous_subdivision_time := [''scan'' \<mapsto> 45000000]\<rparr>)
       ''scan'' = Some 45000000
   \<and> 50000000 \<in> set (times_for ''scan'' (fst (HandleLaserScans example_env
         (example_bridge\<lparr>sensor_to_previous_subdivision_time := [''scan'' \<mapsto> 45000000]\<rparr>)
         [(''scan'', 50000000, ''/laser'', example_scan)])))
   \<and> (45000000 :: Time) < 50000000"
proof -
  let ?st1 = "example_bridge\<lparr>sensor_to_previous_subdivision_time := [''scan'' \<mapsto> 45000000]\<rparr>"
  let ?st2 = "example_bridge\<lparr>sensor_to_previous_subdivision_time := [''scan'' \<mapsto> 50000000]\<rparr>"
  let ?scan = "(''scan'', 50000000 :: Time, ''/laser'', example_scan)"
  have h1: "sensor_to_previous_subdivision_time ?st2 ''scan'' = Some 50000000
     \<and> 50000000 + FromSeconds example_env
         (v3 (last (subdivision_of (points example_scan) 0
            (num_subdivisions_per_laser_scan ?st2)))) \<le> 50000000"
    by (simp add: subdivision_of_def start_index_def end_index_def size_t_of_int_def
        example_scan_def example_bridge_def)
  note skipped = out_of_order_spec [where env = example_env and st = ?st2
      and sensor_id = "''scan''" and t = 50000000 and frame = "''/laser''"
      and pts = "points example_scan" and i = 0 and x = "''scan''" and scans = "[]",
      THEN conjunct1, rule_format, OF h1, THEN conjunct1]
  have run: "HandleLaserScans example_env example_bridge [?scan, ?scan] =
     ([(''scan'', TimedPointCloud_data (TimedPointCloudData 45000000 (1, 0, 0)
          [\<lparr>v0 = 2, v1 = 0, v2 = 0, v3 = - 1 / 4\<rparr>,
           \<lparr>v0 = 3, v1 = 0, v2 = 0, v3 = 0\<rparr>])),
       (''scan'', TimedPointCloud_data (TimedPointCloudData 50000000 (1, 0, 0)
          [\<lparr>v0 = 4, v1 = 0, v2 = 0, v3 = - 1 / 4\<rparr>,
           \<lparr>v0 = 5, v1 = 0, v2 = 0, v3 = 0\<rparr>]))],
      Inr ?st2)"
    by (simp add: HandleLaserScans_def example_scan_run
        example_scan_rejected [of _ 50000000])
  have times: "times_for ''scan'' (fst (HandleLaserScans example_env example_bridge
      [?scan, ?scan])) = [45000000, 50000000]"
    by (simp add: run times_for_def)
  note sorted = out_of_order_spec [where env = example_env and st = example_bridge
      and sensor_id = "''scan''" and t = 50000000 and frame = "''/laser''"
      and pts = "points example_scan" and i = 0 and x = "''scan''"
      and scans = "[?scan, ?scan]", THEN conjunct2, THEN conjunct1]
  have h3: "sensor_to_previous_subdivision_time ?st1 ''scan'' = Some 45000000
     \<and> 50000000 \<in> set (times_for ''scan'' (fst (HandleLaserScans example_env ?st1 [?scan])))"
    by (simp add: HandleLaserScans_def example_scan_late times_for_def)
  note after = out_of_order_spec [where env = example_env and st = ?st1
      and sensor_id = "''scan''" and t = 50000000 and frame = "''/laser''"
      and pts = "points example_scan" and i = 0 and x = "''scan''"
      and scans = "[?scan]", THEN conjunct2, THEN conjunct2, rule_format, OF h3]
  from h1 [THEN conjunct1] h1 [THEN conjunct2] skipped times sorted
    h3 [THEN conjunct1] h3 [THEN conjunct2] after
  show ?thesis
    by (intro conjI)
qed

subsection \<open>What the handlers do to the bridge\<close>

lemma HandleRangefinder_state:
  "snd (HandleRangefinder env st sensor_id t frame rs) = Inr st"
  "fst (HandleRangefinder env st sensor_id t frame rs) =
   fst (HandleRangefinder env st' sensor_id t frame rs)"
  by (simp_all add: HandleRangefinder_def split: option.splits)

lemma HandleOdometryMessage_state:
  "fst (HandleOdometryMessage env st sensor_id msg) =
   fst (HandleOdometryMessage env st' sensor_id msg)"
  "snd (HandleOdometryMessage env st sensor_id msg) = Inr st"
  by (simp_all add: HandleOdometryMessage_def split: option.splits OdometryData.splits)

lemma HandleLandmarkMessage_state:
  "fst (HandleLandmarkMessage env st sensor_id msg) =
   fst (HandleLandmarkMessage env st' sensor_id msg)"
  "snd (HandleLandmarkMessage env st sensor_id msg) = Inr st"
  by (simp_all add: HandleLandmarkMessage_def)

lemma HandleImuMessage_state:
  "fst (HandleImuMessage env st sensor_id msg) = fst (HandleImuMessage env st' sensor_id msg)"
  "snd (HandleImuMessage env st sensor_id msg) = Inr st
   \<or> (snd (HandleImuMessage env st sensor_id msg) = Inl CheckFailed
      \<and> snd (HandleImuMessage env st' sensor_id msg) = Inl CheckFailed)"
  by (simp_all add: HandleImuMessage_def split: sum.splits option.splits ImuData.splits)
     (auto simp: ToImuData_def Let_def split: if_splits option.splits)

lemma HandlePointCloud2Message_state:
  "fst (HandlePointCloud2Message env st sensor_id msg sensor_type) =
   fst (HandlePointCloud2Message env st' sensor_id msg sensor_type)"
  "snd (HandlePointCloud2Message env st sensor_id msg sensor_type) = Inr st
   \<or> (snd (HandlePointCloud2Message env st sensor_id msg sensor_type) = Inl UndefinedBehavior
      \<and> snd (HandlePointCloud2Message env st' sensor_id msg sensor_type) =
          Inl UndefinedBehavior)"
  using HandleRangefinder_state(2) [of env st sensor_id _ _ _ st']
  by (simp_all add: HandlePointCloud2Message_def Let_def HandleRangefinder_state(1))

text \<open>
  A call that reads no state forwards the same records from any two bridges; it
  returns the bridge it was given, or it ends with the same error from both.
\<close>

lemma reads_no_state_Handle:
  assumes "reads_no_state c"
  shows "fst (Handle env st c) = fst (Handle env st' c)"
    and "(snd (Handle env st c) = Inr st \<and> snd (Handle env st' c) = Inr st')
       \<or> (\<exists>e. snd (Handle env st c) = Inl e \<and> snd (Handle env st' c) = Inl e)"
proof -
  show "fst (Handle env st c) = fst (Handle env st' c)"
    using assms
    by (cases c)
       (simp_all add: HandleOdometryMessage_state(1) [of env st _ _ st']
          HandleLandmarkMessage_state(1) [of env st _ _ st']
          HandleImuMessage_state(1) [of env st _ _ st']
          HandlePointCloud2Message_state(1) [of env st _ _ _ st'])
  show "(snd (Handle env st c) = Inr st \<and> snd (Handle env st' c) = Inr st')
       \<or> (\<exists>e. snd (Handle env st c) = Inl e \<and> snd (Handle env st' c) = Inl e)"
  proof (cases c)
    case (OdometryMessage sensor_id msg)
    then show ?thesis by (simp add: HandleOdometryMessage_state(2))
  next
    case (NavSatFixMessage sensor_id msg)
    with assms show ?thesis by simp
  next
    case (LandmarkMessage sensor_id msg)
    then show ?thesis by (simp add: HandleLandmarkMessage_state(2))
  next
    case (ImuMessage sensor_id msg)
    with HandleImuMessage_state(2) [of env st sensor_id msg st']
      HandleImuMessage_state(2) [of env st' sensor_id msg st]
    show ?thesis by auto
  next
    case (LaserScanMessage sensor_id msg)
    with assms show ?thesis by simp
  next
    case (MultiEchoLaserScanMessage sensor_id msg)
    with assms show ?thesis by simp
  next
    case (PointCloud2Message sensor_id msg sensor_type)
    with HandlePointCloud2Message_state(2) [of env st sensor_id msg sensor_type st']
      HandlePointCloud2Message_state(2) [of env st' sensor_id msg sensor_type st]
    show ?thesis by auto
  qed
qed

text \<open>A laser scan changes at most the recorded subdivision times.\<close>

lemma HandleLaserScan_frame:
  fixes env :: "('tf, 'q) collaborators"
  assumes "snd (HandleLaserScan env st sensor_id t frame pc) = Inr st'"
  shows "num_subdivisions_per_laser_scan st' = num_subdivisions_per_laser_scan st
       \<and> ecef_to_local_frame st' = ecef_to_local_frame st"
proof -
  define P where "P s out r \<longleftrightarrow>
      (\<forall>s'. r = Inr s' \<longrightarrow>
         num_subdivisions_per_laser_scan s' = num_subdivisions_per_laser_scan s
         \<and> ecef_to_local_frame s' = ecef_to_local_frame s)"
    for s :: "'tf SensorBridge" and out :: "'tf AddSensorData list"
      and r :: "error + 'tf SensorBridge"
  have stop: "P s [] (Inr s)" for s
    by (simp add: P_def)
  have ub: "P s [] (Inl UndefinedBehavior)" for s
    by (simp add: P_def)
  have step: "P s out r"
    if "HandleLaserScan_body env s sensor_id t frame (points pc) i = (out, r)" for s i out r
    unfolding P_def
  proof (intro allI impI)
    fix s' assume "r = Inr s'"
    with that have "HandleLaserScan_body env s sensor_id t frame (points pc) i = (out, Inr s')"
      by simp
    then show "num_subdivisions_per_laser_scan s' = num_subdivisions_per_laser_scan s
         \<and> ecef_to_local_frame s' = ecef_to_local_frame s"
      by (rule HandleLaserScan_body_num)
  qed
  have comp: "P s (out @ out') r" if 1: "P s out (Inr s')" and 2: "P s' out' r"
    for s out s' out' r
    unfolding P_def
  proof (intro allI impI)
    fix s'' assume "r = Inr s''"
    with 2 have "num_subdivisions_per_laser_scan s'' = num_subdivisions_per_laser_scan s'
         \<and> ecef_to_local_frame s'' = ecef_to_local_frame s'"
      unfolding P_def by blast
    moreover from 1 have "num_subdivisions_per_laser_scan s' = num_subdivisions_per_laser_scan s
         \<and> ecef_to_local_frame s' = ecef_to_local_frame s"
      unfolding P_def by blast
    ultimately show "num_subdivisions_per_laser_scan s'' = num_subdivisions_per_laser_scan s
         \<and> ecef_to_local_frame s'' = ecef_to_local_frame s"
      by simp
  qed
  have loop: "P st (fst (HandleLaserScan_loop env st sensor_id t frame (points pc) 0))
          (snd (HandleLaserScan_loop env st sensor_id t frame (points pc) 0))"
    by (rule HandleLaserScan_loop_rule [of P, OF stop ub step comp])
  show ?thesis
  proof (cases "points pc = [] \<or> \<not> v3 (last (points pc)) \<le> 0")
    case True
    with assms show ?thesis
      by (auto simp: HandleLaserScan_def split: if_splits)
  next
    case False
    with assms have "snd (HandleLaserScan_loop env st sensor_id t frame (points pc) 0) = Inr st'"
      by (simp add: HandleLaserScan_def)
    with loop show ?thesis
      unfolding P_def by blast
  qed
qed

lemma HandleNavSatFixMessage_frame:
  assumes "snd (HandleNavSatFixMessage env st sensor_id msg) = Inr st'"
  shows "num_subdivisions_per_laser_scan st' = num_subdivisions_per_laser_scan st
       \<and> sensor_to_previous_subdivision_time st' = sensor_to_previous_subdivision_time st"
  using assms
  by (auto simp: HandleNavSatFixMessage_def Let_def split: if_splits option.splits)

subsection \<open>Message histories\<close>

lemma in_order_snoc:
  assumes "in_order step st as = (out, Inr s)"
  shows "in_order step st (as @ [a]) = (out @ fst (step s a), snd (step s a))"
  using assms
proof (induction as arbitrary: st out)
  case Nil
  then show ?case
    by (cases "step s a") (auto split: sum.splits)
next
  case (Cons b bs)
  obtain o1 r1 where b: "step st b = (o1, r1)"
    by (cases "step st b")
  show ?case
  proof (cases r1)
    case (Inl e)
    with b Cons.prems show ?thesis by simp
  next
    case (Inr s1)
    obtain o2 r2 where rest: "in_order step s1 bs = (o2, r2)"
      by (cases "in_order step s1 bs")
    with b Inr Cons.prems have "r2 = Inr s" "out = o1 @ o2"
      by simp_all
    with rest Cons.IH [of s1 o2] b Inr show ?thesis
      by simp
  qed
qed

lemma example_laser_scan_conv:
  "ToPointCloudWithIntensities example_env example_laser_scan = (example_scan, 50000000)"
  by (simp add: example_env_def example_laser_scan_def example_scan_def)

lemma example_laser_scan_first:
  "Handle example_env example_bridge (LaserScanMessage ''scan'' example_laser_scan) =
     ([(''scan'', TimedPointCloud_data (TimedPointCloudData 45000000 (1, 0, 0)
          [\<lparr>v0 = 2, v1 = 0, v2 = 0, v3 = - 1 / 4\<rparr>,
           \<lparr>v0 = 3, v1 = 0, v2 = 0, v3 = 0\<rparr>])),
       (''scan'', TimedPointCloud_data (TimedPointCloudData 50000000 (1, 0, 0)
          [\<lparr>v0 = 4, v1 = 0, v2 = 0, v3 = - 1 / 4\<rparr>,
           \<lparr>v0 = 5, v1 = 0, v2 = 0, v3 = 0\<rparr>]))],
      Inr (example_bridge\<lparr>sensor_to_previous_subdivision_time := [''scan'' \<mapsto> 50000000]\<rparr>))"
proof -
  have "frame_id (header example_laser_scan) = ''/laser''"
    by (simp add: example_laser_scan_def)
  then show ?thesis
    by (simp add: HandleLaserScanMessage_def example_laser_scan_conv example_scan_run)
qed

lemma example_laser_scan_again:
  "Handle example_env
     (example_bridge\<lparr>sensor_to_previous_subdivision_time := [''scan'' \<mapsto> 50000000]\<rparr>)
     (LaserScanMessage ''scan'' example_laser_scan) =
     ([], Inr (example_bridge\<lparr>sensor_to_previous_subdivision_time :=
                                 [''scan'' \<mapsto> 50000000]\<rparr>))"
proof -
  have "frame_id (header example_laser_scan) = ''/laser''"
    by (simp add: example_laser_scan_def)
  then show ?thesis
    by (simp add: HandleLaserScanMessage_def example_laser_scan_conv
        example_scan_rejected [of _ 50000000])
qed

text \<open>
  C4 as stated fails: handling a laser scan changes the bridge, and the same scan
  message forwards two records after the empty history and none after a history that
  holds this message already.
\<close>

theorem stateless_counterexample:
  "HandleAll example_env example_bridge [] = ([], Inr example_bridge)
   \<and> snd (HandleAll example_env example_bridge [LaserScanMessage ''scan'' example_laser_scan]) =
       Inr (example_bridge\<lparr>sensor_to_previous_subdivision_time := [''scan'' \<mapsto> 50000000]\<rparr>)
   \<and> example_bridge\<lparr>sensor_to_previous_subdivision_time := [''scan'' \<mapsto> 50000000]\<rparr>
       \<noteq> example_bridge
   \<and> fst (Handle example_env example_bridge (LaserScanMessage ''scan'' example_laser_scan)) =
       [(''scan'', TimedPointCloud_data (TimedPointCloudData 45000000 (1, 0, 0)
          [\<lparr>v0 = 2, v1 = 0, v2 = 0, v3 = - 1 / 4\<rparr>,
           \<lparr>v0 = 3, v1 = 0, v2 = 0, v3 = 0\<rparr>])),
        (''scan'', TimedPointCloud_data (TimedPointCloudData 50000000 (1, 0, 0)
          [\<lparr>v0 = 4, v1 = 0, v2 = 0, v3 = - 1 / 4\<rparr>,
           \<lparr>v0 = 5, v1 = 0, v2 = 0, v3 = 0\<rparr>]))]
   \<and> fst (Handle example_env
            (example_bridge\<lparr>sensor_to_previous_subdivision_time := [''scan'' \<mapsto> 50000000]\<rparr>)
            (LaserScanMessage ''scan'' example_laser_scan)) = []"
proof -
  have differ: "example_bridge\<lparr>sensor_to_previous_subdivision_time :=
                    [''scan'' \<mapsto> 50000000]\<rparr> \<noteq> example_bridge"
  proof
    assume "example_bridge\<lparr>sensor_to_previous_subdivision_time :=
                    [''scan'' \<mapsto> 50000000]\<rparr> = example_bridge"
    then have "sensor_to_previous_subdivision_time
          (example_bridge\<lparr>sensor_to_previous_subdivision_time := [''scan'' \<mapsto> 50000000]\<rparr>)
          ''scan'' = sensor_to_previous_subdivision_time example_bridge ''scan''"
      by simp
    then show False
      by (simp add: example_bridge_def)
  qed
  have "HandleAll example_env example_bridge [] = ([], Inr example_bridge)"
    by (simp add: HandleAll_def)
  moreover have "snd (HandleAll example_env example_bridge
        [LaserScanMessage ''scan'' example_laser_scan]) =
       Inr (example_bridge\<lparr>sensor_to_previous_subdivision_time := [''scan'' \<mapsto> 50000000]\<rparr>)"
    by (simp add: HandleAll_def example_laser_scan_first del: Handle.simps)
  moreover note differ
  moreover have "fst (Handle example_env example_bridge
        (LaserScanMessage ''scan'' example_laser_scan)) =
       [(''scan'', TimedPointCloud_data (TimedPointCloudData 45000000 (1, 0, 0)
          [\<lparr>v0 = 2, v1 = 0, v2 = 0, v3 = - 1 / 4\<rparr>,
           \<lparr>v0 = 3, v1 = 0, v2 = 0, v3 = 0\<rparr>])),
        (''scan'', TimedPointCloud_data (TimedPointCloudData 50000000 (1, 0, 0)
          [\<lparr>v0 = 4, v1 = 0, v2 = 0, v3 = - 1 / 4\<rparr>,
           \<lparr>v0 = 5, v1 = 0, v2 = 0, v3 = 0\<rparr>]))]"
    by (simp add: example_laser_scan_first del: Handle.simps)
  moreover have "fst (Handle example_env
            (example_bridge\<lparr>sensor_to_previous_subdivision_time := [''scan'' \<mapsto> 50000000]\<rparr>)
            (LaserScanMessage ''scan'' example_laser_scan)) = []"
    by (simp add: example_laser_scan_again del: Handle.simps)
  ultimately show ?thesis
    by (intro conjI)
qed


text \<open>
  C4, amended. A call for an odometry, landmark, IMU or PointCloud2 message neither
  reads nor changes the bridge: after any two histories that the bridge has handled
  without an error, the records forwarded for such a message are the same, and the
  bridge is as before (or the call ends with the same error in both runs). A laser scan
  changes at most the recorded subdivision times, and a satellite fix at most the
  ECEF-to-local frame.
\<close>

theorem history_independence_spec:
  "(reads_no_state c
      \<and> HandleAll env st h1 = (out1, Inr s1) \<and> HandleAll env st h2 = (out2, Inr s2) \<longrightarrow>
      fst (HandleAll env st (h1 @ [c])) = out1 @ fst (Handle env s1 c)
      \<and> fst (HandleAll env st (h2 @ [c])) = out2 @ fst (Handle env s1 c)
      \<and> (snd (HandleAll env st (h1 @ [c])) = Inr s1
             \<and> snd (HandleAll env st (h2 @ [c])) = Inr s2
          \<or> (\<exists>e. snd (HandleAll env st (h1 @ [c])) = Inl e
                 \<and> snd (HandleAll env st (h2 @ [c])) = Inl e)))
   \<and> (\<forall>st'. snd (Handle env st (LaserScanMessage sensor_id scan)) = Inr st' \<longrightarrow>
          num_subdivisions_per_laser_scan st' = num_subdivisions_per_laser_scan st
          \<and> ecef_to_local_frame st' = ecef_to_local_frame st)
   \<and> (\<forall>st'. snd (Handle env st (MultiEchoLaserScanMessage sensor_id echoes)) = Inr st' \<longrightarrow>
          num_subdivisions_per_laser_scan st' = num_subdivisions_per_laser_scan st
          \<and> ecef_to_local_frame st' = ecef_to_local_frame st)
   \<and> (\<forall>st'. snd (Handle env st (NavSatFixMessage sensor_id nav)) = Inr st' \<longrightarrow>
          num_subdivisions_per_laser_scan st' = num_subdivisions_per_laser_scan st
          \<and> sensor_to_previous_subdivision_time st' = sensor_to_previous_subdivision_time st)"
proof (intro conjI allI impI)
  assume a: "reads_no_state c
      \<and> HandleAll env st h1 = (out1, Inr s1) \<and> HandleAll env st h2 = (out2, Inr s2)"
  then have c: "reads_no_state c"
    and h1: "in_order (Handle env) st h1 = (out1, Inr s1)"
    and h2: "in_order (Handle env) st h2 = (out2, Inr s2)"
    by (simp_all add: HandleAll_def)
  note run1 = in_order_snoc [OF h1, of c] and run2 = in_order_snoc [OF h2, of c]
  note same = reads_no_state_Handle [OF c, of env s1 s2]
  show "fst (HandleAll env st (h1 @ [c])) = out1 @ fst (Handle env s1 c)"
    by (simp add: HandleAll_def run1)
  show "fst (HandleAll env st (h2 @ [c])) = out2 @ fst (Handle env s1 c)"
    by (simp add: HandleAll_def run2 same(1))
  from same(2)
  show "snd (HandleAll env st (h1 @ [c])) = Inr s1
             \<and> snd (HandleAll env st (h2 @ [c])) = Inr s2
          \<or> (\<exists>e. snd (HandleAll env st (h1 @ [c])) = Inl e
                 \<and> snd (HandleAll env st (h2 @ [c])) = Inl e)"
    by (simp add: HandleAll_def run1 run2)
next
  fix st' assume "snd (Handle env st (LaserScanMessage sensor_id scan)) = Inr st'"
  then have "num_subdivisions_per_laser_scan st' = num_subdivisions_per_laser_scan st
          \<and> ecef_to_local_frame st' = ecef_to_local_frame st"
    by (cases "ToPointCloudWithIntensities env scan")
       (simp add: HandleLaserScanMessage_def HandleLaserScan_frame)
  then show "num_subdivisions_per_laser_scan st' = num_subdivisions_per_laser_scan st"
    and "ecef_to_local_frame st' = ecef_to_local_frame st"
    by simp_all
next
  fix st' assume "snd (Handle env st (MultiEchoLaserScanMessage sensor_id echoes)) = Inr st'"
  then have "num_subdivisions_per_laser_scan st' = num_subdivisions_per_laser_scan st
          \<and> ecef_to_local_frame st' = ecef_to_local_frame st"
    by (cases "ToPointCloudWithIntensities_MultiEcho env echoes")
       (simp add: HandleMultiEchoLaserScanMessage_def HandleLaserScan_frame)
  then show "num_subdivisions_per_laser_scan st' = num_subdivisions_per_laser_scan st"
    and "ecef_to_local_frame st' = ecef_to_local_frame st"
    by simp_all
next
  fix st' assume "snd (Handle env st (NavSatFixMessage sensor_id nav)) = Inr st'"
  then have "num_subdivisions_per_laser_scan st' = num_subdivisions_per_laser_scan st
          \<and> sensor_to_previous_subdivision_time st' = sensor_to_previous_subdivision_time st"
    by (simp add: HandleNavSatFixMessage_frame)
  then show "num_subdivisions_per_laser_scan st' = num_subdivisions_per_laser_scan st"
    and "sensor_to_previous_subdivision_time st' = sensor_to_previous_subdivision_time st"
    by simp_all
qed


lemma example_echo_scan_handled:
  "Handle example_env example_bridge (MultiEchoLaserScanMessage ''echo'' example_echo_scan) =
     ([], Inr example_bridge)"
  by (simp add: HandleMultiEchoLaserScanMessage_def HandleLaserScan_def example_env_def
      example_echo_scan_def)

lemma example_fix_first:
  "Handle example_env example_bridge (NavSatFixMessage ''gps'' (example_fix 1 2)) =
     ([(''gps'', FixedFramePose_data (FixedFramePoseData 50000000 (Some (0, 0, 0))))],
      Inr (example_bridge\<lparr>ecef_to_local_frame := Some (- 1, - 2, 0)\<rparr>))"
  by (simp add: HandleNavSatFixMessage_def example_fix_def example_bridge_def
      STATUS_NO_FIX_def)

theorem history_independence_spec_witness:
  "reads_no_state (ImuMessage ''imu0'' example_imu)
   \<and> HandleAll example_env example_bridge [] = ([], Inr example_bridge)
   \<and> HandleAll example_env example_bridge [LaserScanMessage ''scan'' example_laser_scan] =
       ([(''scan'', TimedPointCloud_data (TimedPointCloudData 45000000 (1, 0, 0)
            [\<lparr>v0 = 2, v1 = 0, v2 = 0, v3 = - 1 / 4\<rparr>,
             \<lparr>v0 = 3, v1 = 0, v2 = 0, v3 = 0\<rparr>])),
         (''scan'', TimedPointCloud_data (TimedPointCloudData 50000000 (1, 0, 0)
            [\<lparr>v0 = 4, v1 = 0, v2 = 0, v3 = - 1 / 4\<rparr>,
             \<lparr>v0 = 5, v1 = 0, v2 = 0, v3 = 0\<rparr>]))],
        Inr (example_bridge\<lparr>sensor_to_previous_subdivision_time :=
                                   [''scan'' \<mapsto> 50000000]\<rparr>))
   \<and> fst (HandleAll example_env example_bridge ([] @ [ImuMessage ''imu0'' example_imu])) =
       [(''imu0'', Imu_data (ImuData 50000000 (0, 0, 10) (0, 0, 1)))]
   \<and> fst (HandleAll example_env example_bridge
            ([LaserScanMessage ''scan'' example_laser_scan]
               @ [ImuMessage ''imu0'' example_imu])) =
       [(''scan'', TimedPointCloud_data (TimedPointCloudData 45000000 (1, 0, 0)
            [\<lparr>v0 = 2, v1 = 0, v2 = 0, v3 = - 1 / 4\<rparr>,
             \<lparr>v0 = 3, v1 = 0, v2 = 0, v3 = 0\<rparr>])),
        (''scan'', TimedPointCloud_data (TimedPointCloudData 50000000 (1, 0, 0)
            [\<lparr>v0 = 4, v1 = 0, v2 = 0, v3 = - 1 / 4\<rparr>,
             \<lparr>v0 = 5, v1 = 0, v2 = 0, v3 = 0\<rparr>])),
        (''imu0'', Imu_data (ImuData 50000000 (0, 0, 10) (0, 0, 1)))]
   \<and> snd (Handle example_env example_bridge (LaserScanMessage ''scan'' example_laser_scan)) =
       Inr (example_bridge\<lparr>sensor_to_previous_subdivision_time := [''scan'' \<mapsto> 50000000]\<rparr>)
   \<and> ecef_to_local_frame
         (example_bridge\<lparr>sensor_to_previous_subdivision_time := [''scan'' \<mapsto> 50000000]\<rparr>) =
       ecef_to_local_frame example_bridge
   \<and> snd (Handle example_env example_bridge
            (MultiEchoLaserScanMessage ''echo'' example_echo_scan)) = Inr example_bridge
   \<and> num_subdivisions_per_laser_scan example_bridge =
       num_subdivisions_per_laser_scan example_bridge
   \<and> snd (Handle example_env example_bridge (NavSatFixMessage ''gps'' (example_fix 1 2))) =
       Inr (example_bridge\<lparr>ecef_to_local_frame := Some (- 1, - 2, 0)\<rparr>)
   \<and> sensor_to_previous_subdivision_time
         (example_bridge\<lparr>ecef_to_local_frame := Some (- 1, - 2, 0)\<rparr>) =
       sensor_to_previous_subdivision_time example_bridge"
proof -
  let ?scan = "LaserScanMessage ''scan'' example_laser_scan"
  let ?imu = "ImuMessage ''imu0'' example_imu"
  let ?st2 = "example_bridge\<lparr>sensor_to_previous_subdivision_time := [''scan'' \<mapsto> 50000000]\<rparr>"
  let ?out2 = "[(''scan'', TimedPointCloud_data (TimedPointCloudData 45000000 (1, 0, 0)
            [\<lparr>v0 = 2, v1 = 0, v2 = 0, v3 = - 1 / 4\<rparr>,
             \<lparr>v0 = 3, v1 = 0, v2 = 0, v3 = 0\<rparr>])),
         (''scan'', TimedPointCloud_data (TimedPointCloudData 50000000 (1, 0, 0)
            [\<lparr>v0 = 4, v1 = 0, v2 = 0, v3 = - 1 / 4\<rparr>,
             \<lparr>v0 = 5, v1 = 0, v2 = 0, v3 = 0\<rparr>]))] :: Vector3 AddSensorData list"
  note t = history_independence_spec [where env = example_env and st = example_bridge
      and c = ?imu and ?h1.0 = "[]" and ?h2.0 = "[?scan]"
      and ?out1.0 = "[]" and ?s1.0 = example_bridge and ?out2.0 = ?out2 and ?s2.0 = ?st2
      and sensor_id = "''scan''" and scan = example_laser_scan]
  note t_echo = history_independence_spec [where env = example_env and st = example_bridge
      and sensor_id = "''echo''" and echoes = example_echo_scan]
  note t_fix = history_independence_spec [where env = example_env and st = example_bridge
      and sensor_id = "''gps''" and nav = "example_fix 1 2"]
  have c: "reads_no_state ?imu"
    by simp
  have h1: "HandleAll example_env example_bridge [] = ([], Inr example_bridge)"
    by (simp add: HandleAll_def)
  have h2: "HandleAll example_env example_bridge [?scan] = (?out2, Inr ?st2)"
    by (simp add: HandleAll_def example_laser_scan_first del: Handle.simps)
  have imu: "fst (Handle example_env example_bridge ?imu) =
      [(''imu0'', Imu_data (ImuData 50000000 (0, 0, 10) (0, 0, 1)))]"
    by (simp add: example_imu_forwarded)
  note runs = t [THEN conjunct1, rule_format, OF conjI [OF c conjI [OF h1 h2]]]
  have r1: "fst (HandleAll example_env example_bridge ([] @ [?imu])) =
       [(''imu0'', Imu_data (ImuData 50000000 (0, 0, 10) (0, 0, 1)))]"
    using runs [THEN conjunct1] by (simp only: imu append_Nil)
  have r2: "fst (HandleAll example_env example_bridge ([?scan] @ [?imu])) =
       [(''scan'', TimedPointCloud_data (TimedPointCloudData 45000000 (1, 0, 0)
            [\<lparr>v0 = 2, v1 = 0, v2 = 0, v3 = - 1 / 4\<rparr>,
             \<lparr>v0 = 3, v1 = 0, v2 = 0, v3 = 0\<rparr>])),
        (''scan'', TimedPointCloud_data (TimedPointCloudData 50000000 (1, 0, 0)
            [\<lparr>v0 = 4, v1 = 0, v2 = 0, v3 = - 1 / 4\<rparr>,
             \<lparr>v0 = 5, v1 = 0, v2 = 0, v3 = 0\<rparr>])),
        (''imu0'', Imu_data (ImuData 50000000 (0, 0, 10) (0, 0, 1)))]"
    using runs [THEN conjunct2, THEN conjunct1]
    by (simp only: imu append_Cons append_Nil)
  have s: "snd (Handle example_env example_bridge ?scan) = Inr ?st2"
    by (simp add: example_laser_scan_first del: Handle.simps)
  note f1 = t [THEN conjunct2, THEN conjunct1, rule_format, OF s, THEN conjunct2]
  have e: "snd (Handle example_env example_bridge
            (MultiEchoLaserScanMessage ''echo'' example_echo_scan)) = Inr example_bridge"
    by (simp add: example_echo_scan_handled del: Handle.simps)
  note f2 = t_echo [THEN conjunct2, THEN conjunct2, THEN conjunct1, rule_format, OF e,
      THEN conjunct1]
  have g: "snd (Handle example_env example_bridge (NavSatFixMessage ''gps'' (example_fix 1 2))) =
       Inr (example_bridge\<lparr>ecef_to_local_frame := Some (- 1, - 2, 0)\<rparr>)"
    by (simp add: example_fix_first del: Handle.simps)
  note f3 = t_fix [THEN conjunct2, THEN conjunct2, THEN conjunct2, rule_format, OF g,
      THEN conjunct2]
  from c h1 h2 r1 r2 s f1 e f2 g f3 show ?thesis
    by (intro conjI)
qed

subsection \<open>The ECEF-to-local frame\<close>

lemma HandleNavSatFixMessage_no_fix:
  "status_status msg = STATUS_NO_FIX \<Longrightarrow>
   HandleNavSatFixMessage env st sensor_id msg =
     ([(sensor_id, FixedFramePose_data
          (FixedFramePoseData (FromRos env (stamp (header msg))) None))],
      Inr st)"
  by (simp add: HandleNavSatFixMessage_def)

lemma HandleNavSatFixMessage_first:
  "status_status msg \<noteq> STATUS_NO_FIX \<Longrightarrow> ecef_to_local_frame st = None \<Longrightarrow>
   HandleNavSatFixMessage env st sensor_id msg =
     ([(sensor_id, FixedFramePose_data
          (FixedFramePoseData (FromRos env (stamp (header msg)))
             (Some (Rigid3_Translation env
                (Rigid3_apply env
                   (ComputeLocalFrameFromLatLong env (latitude msg) (longitude msg))
                   (LatLongAltToEcef env (latitude msg) (longitude msg) (altitude msg)))))))],
      Inr (st\<lparr>ecef_to_local_frame :=
                Some (ComputeLocalFrameFromLatLong env (latitude msg) (longitude msg))\<rparr>))"
  by (simp add: HandleNavSatFixMessage_def)

lemma HandleNavSatFixMessage_later:
  "status_status msg \<noteq> STATUS_NO_FIX \<Longrightarrow> ecef_to_local_frame st = Some f \<Longrightarrow>
   HandleNavSatFixMessage env st sensor_id msg =
     ([(sensor_id, FixedFramePose_data
          (FixedFramePoseData (FromRos env (stamp (header msg)))
             (Some (Rigid3_Translation env
                (Rigid3_apply env f
                   (LatLongAltToEcef env (latitude msg) (longitude msg) (altitude msg)))))))],
      Inr st)"
  by (simp add: HandleNavSatFixMessage_def)

text \<open>Every call but a satellite fix leaves the frame as it is.\<close>

lemma Handle_ecef_other:
  assumes "snd (Handle env st c) = Inr st'" and "first_fix [c] = None"
  shows "ecef_to_local_frame st' = ecef_to_local_frame st"
proof (cases c)
  case (NavSatFixMessage sensor_id msg)
  with assms(2) have "status_status msg = STATUS_NO_FIX"
    by (simp split: if_splits)
  with assms(1) NavSatFixMessage show ?thesis
    by (simp add: HandleNavSatFixMessage_no_fix)
next
  case (LaserScanMessage sensor_id msg)
  with assms(1) show ?thesis
    by (cases "ToPointCloudWithIntensities env msg")
       (simp add: HandleLaserScanMessage_def HandleLaserScan_frame)
next
  case (MultiEchoLaserScanMessage sensor_id msg)
  with assms(1) show ?thesis
    by (cases "ToPointCloudWithIntensities_MultiEcho env msg")
       (simp add: HandleMultiEchoLaserScanMessage_def HandleLaserScan_frame)
next
  case (OdometryMessage sensor_id msg)
  with assms(1) reads_no_state_Handle(2) [of c env st st] show ?thesis
    by auto
next
  case (LandmarkMessage sensor_id msg)
  with assms(1) reads_no_state_Handle(2) [of c env st st] show ?thesis
    by auto
next
  case (ImuMessage sensor_id msg)
  with assms(1) reads_no_state_Handle(2) [of c env st st] show ?thesis
    by auto
next
  case (PointCloud2Message sensor_id msg sensor_type)
  with assms(1) reads_no_state_Handle(2) [of c env st st] show ?thesis
    by auto
qed

lemma Handle_ecef_Some:
  assumes "snd (Handle env st c) = Inr st'" and "ecef_to_local_frame st = Some f"
  shows "ecef_to_local_frame st' = Some f"
proof (cases "first_fix [c]")
  case None
  with assms show ?thesis
    by (simp add: Handle_ecef_other)
next
  case (Some msg)
  then obtain sensor_id where c: "c = NavSatFixMessage sensor_id msg"
    and usable: "status_status msg \<noteq> STATUS_NO_FIX"
    by (cases c) (simp_all split: if_splits)
  with assms show ?thesis
    by (simp add: HandleNavSatFixMessage_later)
qed

lemma HandleAll_Cons:
  "HandleAll env st (c # cs) =
     (case Handle env st c of
        (out, Inl e) \<Rightarrow> (out, Inl e)
      | (out, Inr st') \<Rightarrow> (case HandleAll env st' cs of (out', r) \<Rightarrow> (out @ out', r)))"
  unfolding HandleAll_def by simp

lemma HandleAll_Cons_Inr:
  assumes "snd (HandleAll env st (c # cs)) = Inr st'"
  obtains s where "snd (Handle env st c) = Inr s" "snd (HandleAll env s cs) = Inr st'"
proof -
  obtain out r where h: "Handle env st c = (out, r)"
    by (cases "Handle env st c")
  show thesis
  proof (cases r)
    case (Inl e)
    with h assms show ?thesis
      by (simp add: HandleAll_Cons del: Handle.simps)
  next
    case (Inr s)
    with h assms have "snd (HandleAll env s cs) = Inr st'"
      by (simp add: HandleAll_Cons del: Handle.simps split: prod.splits)
    with h Inr show ?thesis
      by (intro that [of s]) simp_all
  qed
qed

lemma HandleAll_ecef_Some:
  assumes "snd (HandleAll env st calls) = Inr st'" and "ecef_to_local_frame st = Some f"
  shows "ecef_to_local_frame st' = Some f"
  using assms
proof (induction calls arbitrary: st)
  case Nil
  then show ?case by (simp add: HandleAll_def)
next
  case (Cons c cs)
  from Cons.prems(1) obtain s where s: "snd (Handle env st c) = Inr s"
    and rest: "snd (HandleAll env s cs) = Inr st'"
    by (rule HandleAll_Cons_Inr)
  from s Cons.prems(2) have "ecef_to_local_frame s = Some f"
    by (rule Handle_ecef_Some)
  with rest show ?case
    by (rule Cons.IH)
qed

lemma HandleAll_ecef_None:
  assumes "snd (HandleAll env st calls) = Inr st'" and "ecef_to_local_frame st = None"
  shows "ecef_to_local_frame st' =
         (case first_fix calls of
            None \<Rightarrow> None
          | Some msg \<Rightarrow>
              Some (ComputeLocalFrameFromLatLong env (latitude msg) (longitude msg)))"
  using assms
proof (induction calls arbitrary: st)
  case Nil
  then show ?case by (simp add: HandleAll_def)
next
  case (Cons c cs)
  from Cons.prems(1) obtain s where s: "snd (Handle env st c) = Inr s"
    and rest: "snd (HandleAll env s cs) = Inr st'"
    by (rule HandleAll_Cons_Inr)
  show ?case
  proof (cases "first_fix [c]")
    case None
    with s Cons.prems(2) have "ecef_to_local_frame s = None"
      by (simp add: Handle_ecef_other)
    with rest have "ecef_to_local_frame st' =
         (case first_fix cs of
            None \<Rightarrow> None
          | Some msg \<Rightarrow>
              Some (ComputeLocalFrameFromLatLong env (latitude msg) (longitude msg)))"
      by (rule Cons.IH)
    moreover from None have "first_fix (c # cs) = first_fix cs"
      by (cases c) (simp_all split: if_splits)
    ultimately show ?thesis by simp
  next
    case (Some msg)
    then obtain sensor_id where c: "c = NavSatFixMessage sensor_id msg"
      and usable: "status_status msg \<noteq> STATUS_NO_FIX"
      by (cases c) (simp_all split: if_splits)
    with s Cons.prems(2) have "ecef_to_local_frame s =
        Some (ComputeLocalFrameFromLatLong env (latitude msg) (longitude msg))"
      by (auto simp: HandleNavSatFixMessage_first)
    with rest have "ecef_to_local_frame st' =
        Some (ComputeLocalFrameFromLatLong env (latitude msg) (longitude msg))"
      by (rule HandleAll_ecef_Some)
    moreover from c usable have "first_fix (c # cs) = Some msg"
      by simp
    ultimately show ?thesis by simp
  qed
qed


text \<open>
  C8. A satellite message with status \<open>STATUS_NO_FIX\<close> forwards a record without a
  pose and leaves the bridge as it is. The first message with another status sets the
  ECEF-to-local frame from its latitude and longitude; a later one uses the frame that
  is set and leaves it. Once the frame is set no history of calls changes it, and after
  a history that starts without a frame the frame is the one computed from the first
  message of the history that has a fix (none if there is no such message).
\<close>

theorem ecef_write_once_spec:
  "(status_status msg = STATUS_NO_FIX \<longrightarrow>
      HandleNavSatFixMessage env st sensor_id msg =
        ([(sensor_id, FixedFramePose_data
             (FixedFramePoseData (FromRos env (stamp (header msg))) None))],
         Inr st))
   \<and> (status_status msg \<noteq> STATUS_NO_FIX \<and> ecef_to_local_frame st = None \<longrightarrow>
      HandleNavSatFixMessage env st sensor_id msg =
        ([(sensor_id, FixedFramePose_data
             (FixedFramePoseData (FromRos env (stamp (header msg)))
                (Some (Rigid3_Translation env
                   (Rigid3_apply env
                      (ComputeLocalFrameFromLatLong env (latitude msg) (longitude msg))
                      (LatLongAltToEcef env (latitude msg) (longitude msg)
                         (altitude msg)))))))],
         Inr (st\<lparr>ecef_to_local_frame :=
                   Some (ComputeLocalFrameFromLatLong env (latitude msg) (longitude msg))\<rparr>)))
   \<and> (\<forall>f. status_status msg \<noteq> STATUS_NO_FIX \<and> ecef_to_local_frame st = Some f \<longrightarrow>
      HandleNavSatFixMessage env st sensor_id msg =
        ([(sensor_id, FixedFramePose_data
             (FixedFramePoseData (FromRos env (stamp (header msg)))
                (Some (Rigid3_Translation env
                   (Rigid3_apply env f
                      (LatLongAltToEcef env (latitude msg) (longitude msg)
                         (altitude msg)))))))],
         Inr st))
   \<and> (\<forall>f st'. ecef_to_local_frame st = Some f \<and> snd (HandleAll env st calls) = Inr st' \<longrightarrow>
        ecef_to_local_frame st' = Some f)
   \<and> (\<forall>st'. ecef_to_local_frame st = None \<and> snd (HandleAll env st calls) = Inr st' \<longrightarrow>
        ecef_to_local_frame st' =
          (case first_fix calls of
             None \<Rightarrow> None
           | Some m \<Rightarrow> Some (ComputeLocalFrameFromLatLong env (latitude m) (longitude m))))"
proof (intro conjI allI impI)
  assume "status_status msg = STATUS_NO_FIX"
  then show "HandleNavSatFixMessage env st sensor_id msg =
        ([(sensor_id, FixedFramePose_data
             (FixedFramePoseData (FromRos env (stamp (header msg))) None))],
         Inr st)"
    by (rule HandleNavSatFixMessage_no_fix)
next
  assume "status_status msg \<noteq> STATUS_NO_FIX \<and> ecef_to_local_frame st = None"
  then show "HandleNavSatFixMessage env st sensor_id msg =
        ([(sensor_id, FixedFramePose_data
             (FixedFramePoseData (FromRos env (stamp (header msg)))
                (Some (Rigid3_Translation env
                   (Rigid3_apply env
                      (ComputeLocalFrameFromLatLong env (latitude msg) (longitude msg))
                      (LatLongAltToEcef env (latitude msg) (longitude msg)
                         (altitude msg)))))))],
         Inr (st\<lparr>ecef_to_local_frame :=
                   Some (ComputeLocalFrameFromLatLong env (latitude msg) (longitude msg))\<rparr>))"
    by (simp add: HandleNavSatFixMessage_first)
next
  fix f
  assume "status_status msg \<noteq> STATUS_NO_FIX \<and> ecef_to_local_frame st = Some f"
  then show "HandleNavSatFixMessage env st sensor_id msg =
        ([(sensor_id, FixedFramePose_data
             (FixedFramePoseData (FromRos env (stamp (header msg)))
                (Some (Rigid3_Translation env
                   (Rigid3_apply env f
                      (LatLongAltToEcef env (latitude msg) (longitude msg)
                         (altitude msg)))))))],
         Inr st)"
    by (simp add: HandleNavSatFixMessage_later)
next
  fix f st'
  assume "ecef_to_local_frame st = Some f \<and> snd (HandleAll env st calls) = Inr st'"
  then show "ecef_to_local_frame st' = Some f"
    using HandleAll_ecef_Some [of env st calls st' f] by simp
next
  fix st'
  assume "ecef_to_local_frame st = None \<and> snd (HandleAll env st calls) = Inr st'"
  then show "ecef_to_local_frame st' =
          (case first_fix calls of
             None \<Rightarrow> None
           | Some m \<Rightarrow> Some (ComputeLocalFrameFromLatLong env (latitude m) (longitude m)))"
    using HandleAll_ecef_None [of env st calls st'] by simp
qed

lemma example_fix_later:
  "Handle example_env (example_bridge\<lparr>ecef_to_local_frame := Some (- 1, - 2, 0)\<rparr>)
     (NavSatFixMessage ''gps'' (example_fix 3 4)) =
     ([(''gps'', FixedFramePose_data (FixedFramePoseData 50000000 (Some (2, 2, 0))))],
      Inr (example_bridge\<lparr>ecef_to_local_frame := Some (- 1, - 2, 0)\<rparr>))"
  by (simp add: HandleNavSatFixMessage_def example_fix_def example_bridge_def
      STATUS_NO_FIX_def)

lemma example_no_fix_handled:
  "Handle example_env example_bridge (NavSatFixMessage ''gps'' example_no_fix) =
     ([(''gps'', FixedFramePose_data (FixedFramePoseData 50000000 None))],
      Inr example_bridge)"
  by (simp add: HandleNavSatFixMessage_def example_no_fix_def example_fix_def
      STATUS_NO_FIX_def)

lemma example_fix_history:
  "HandleAll example_env example_bridge
     [NavSatFixMessage ''gps'' example_no_fix,
      NavSatFixMessage ''gps'' (example_fix 1 2),
      NavSatFixMessage ''gps'' (example_fix 3 4)] =
     ([(''gps'', FixedFramePose_data (FixedFramePoseData 50000000 None)),
       (''gps'', FixedFramePose_data (FixedFramePoseData 50000000 (Some (0, 0, 0)))),
       (''gps'', FixedFramePose_data (FixedFramePoseData 50000000 (Some (2, 2, 0))))],
      Inr (example_bridge\<lparr>ecef_to_local_frame := Some (- 1, - 2, 0)\<rparr>))"
  by (simp add: HandleAll_def example_no_fix_handled example_fix_first example_fix_later
      del: Handle.simps)

theorem ecef_write_once_spec_witness:
  "status_status example_no_fix = STATUS_NO_FIX
   \<and> HandleNavSatFixMessage example_env example_bridge ''gps'' example_no_fix =
       ([(''gps'', FixedFramePose_data (FixedFramePoseData 50000000 None))],
        Inr example_bridge)
   \<and> status_status (example_fix 1 2) \<noteq> STATUS_NO_FIX
   \<and> ecef_to_local_frame example_bridge = None
   \<and> HandleNavSatFixMessage example_env example_bridge ''gps'' (example_fix 1 2) =
       ([(''gps'', FixedFramePose_data (FixedFramePoseData 50000000 (Some (0, 0, 0))))],
        Inr (example_bridge\<lparr>ecef_to_local_frame := Some (- 1, - 2, 0)\<rparr>))
   \<and> HandleNavSatFixMessage example_env
        (example_bridge\<lparr>ecef_to_local_frame := Some (- 1, - 2, 0)\<rparr>)
        ''gps'' (example_fix 3 4) =
       ([(''gps'', FixedFramePose_data (FixedFramePoseData 50000000 (Some (2, 2, 0))))],
        Inr (example_bridge\<lparr>ecef_to_local_frame := Some (- 1, - 2, 0)\<rparr>))
   \<and> snd (HandleAll example_env
            (example_bridge\<lparr>ecef_to_local_frame := Some (- 1, - 2, 0)\<rparr>)
            [NavSatFixMessage ''gps'' (example_fix 3 4)]) =
       Inr (example_bridge\<lparr>ecef_to_local_frame := Some (- 1, - 2, 0)\<rparr>)
   \<and> snd (HandleAll example_env example_bridge
            [NavSatFixMessage ''gps'' example_no_fix,
             NavSatFixMessage ''gps'' (example_fix 1 2),
             NavSatFixMessage ''gps'' (example_fix 3 4)]) =
       Inr (example_bridge\<lparr>ecef_to_local_frame := Some (- 1, - 2, 0)\<rparr>)
   \<and> first_fix [NavSatFixMessage ''gps'' example_no_fix,
                 NavSatFixMessage ''gps'' (example_fix 1 2),
                 NavSatFixMessage ''gps'' (example_fix 3 4)] = Some (example_fix 1 2)
   \<and> ecef_to_local_frame (example_bridge\<lparr>ecef_to_local_frame := Some (- 1, - 2, 0)\<rparr>) =
       Some (ComputeLocalFrameFromLatLong example_env (latitude (example_fix 1 2))
               (longitude (example_fix 1 2)))
   \<and> ecef_to_local_frame (example_bridge\<lparr>ecef_to_local_frame := Some (- 1, - 2, 0)\<rparr>) =
       Some (- 1, - 2, 0)"
proof -
  let ?set = "example_bridge\<lparr>ecef_to_local_frame := Some (- 1, - 2, 0)\<rparr>"
  let ?calls = "[NavSatFixMessage ''gps'' example_no_fix,
                 NavSatFixMessage ''gps'' (example_fix 1 2),
                 NavSatFixMessage ''gps'' (example_fix 3 4)]"
  have a1: "status_status example_no_fix = STATUS_NO_FIX"
    by (simp add: example_no_fix_def STATUS_NO_FIX_def)
  have a2: "status_status (example_fix 1 2) \<noteq> STATUS_NO_FIX"
    and a3: "status_status (example_fix 3 4) \<noteq> STATUS_NO_FIX"
    by (simp_all add: example_fix_def STATUS_NO_FIX_def)
  have a4: "ecef_to_local_frame example_bridge = None"
    by (simp add: example_bridge_def)
  have a5: "ecef_to_local_frame ?set = Some (- 1, - 2, 0)"
    by simp
  have c1: "HandleNavSatFixMessage example_env example_bridge ''gps'' example_no_fix =
       ([(''gps'', FixedFramePose_data (FixedFramePoseData 50000000 None))],
        Inr example_bridge)"
    using ecef_write_once_spec [where env = example_env and st = example_bridge
        and sensor_id = "''gps''" and msg = example_no_fix and calls = "[]",
        THEN conjunct1, rule_format, OF a1]
    by (simp add: example_no_fix_def example_fix_def)
  have c2: "HandleNavSatFixMessage example_env example_bridge ''gps'' (example_fix 1 2) =
       ([(''gps'', FixedFramePose_data (FixedFramePoseData 50000000 (Some (0, 0, 0))))],
        Inr ?set)"
    using ecef_write_once_spec [where env = example_env and st = example_bridge
        and sensor_id = "''gps''" and msg = "example_fix 1 2" and calls = "[]",
        THEN conjunct2, THEN conjunct1, rule_format, OF conjI [OF a2 a4]]
    by (simp add: example_fix_def)
  have c3: "HandleNavSatFixMessage example_env ?set ''gps'' (example_fix 3 4) =
       ([(''gps'', FixedFramePose_data (FixedFramePoseData 50000000 (Some (2, 2, 0))))],
        Inr ?set)"
    using ecef_write_once_spec [where env = example_env and st = ?set
        and sensor_id = "''gps''" and msg = "example_fix 3 4" and calls = "[]",
        THEN conjunct2, THEN conjunct2, THEN conjunct1, rule_format, OF conjI [OF a3 a5]]
    by (simp add: example_fix_def)
  have h1: "snd (HandleAll example_env ?set [NavSatFixMessage ''gps'' (example_fix 3 4)]) =
       Inr ?set"
    by (simp add: HandleAll_def example_fix_later del: Handle.simps)
  note kept = ecef_write_once_spec [where env = example_env and st = ?set
        and sensor_id = "''gps''" and msg = "example_fix 3 4"
        and calls = "[NavSatFixMessage ''gps'' (example_fix 3 4)]",
        THEN conjunct2, THEN conjunct2, THEN conjunct2, THEN conjunct1, rule_format,
        OF conjI [OF a5 h1]]
  have h2: "snd (HandleAll example_env example_bridge ?calls) = Inr ?set"
    by (simp add: example_fix_history)
  have ff: "first_fix ?calls = Some (example_fix 1 2)"
    using a1 a2 by simp
  have c5: "ecef_to_local_frame ?set =
       Some (ComputeLocalFrameFromLatLong example_env (latitude (example_fix 1 2))
               (longitude (example_fix 1 2)))"
    using ecef_write_once_spec [where env = example_env and st = example_bridge
        and sensor_id = "''gps''" and msg = "example_fix 3 4" and calls = ?calls,
        THEN conjunct2, THEN conjunct2, THEN conjunct2, THEN conjunct2, rule_format,
        OF conjI [OF a4 h2]]
    by (simp only: ff option.case)
  from a1 c1 a2 a4 c2 c3 h1 h2 ff c5 kept show ?thesis
    by (intro conjI)
qed

end
